theory Spec2Isabelle
  imports Complex_Main "HOL-Library.Log_Nat"
begin

section \<open>Values, exceptions and console output\<close>

text \<open>
  The script \<^verbatim>\<open>ALCARECO_estimation_overall_Run3_withMonitor_slim.py\<close> works on what
  \<^verbatim>\<open>json.loads\<close> returns: \<^verbatim>\<open>None\<close>, booleans, integers, strings, lists and
  dictionaries. A Python \<^verbatim>\<open>str\<close> is a \<open>string\<close>; a \<^verbatim>\<open>bytes\<close> object is a list of
  bytes, and HOL's \<open>char\<close> is a byte, so a decoded text is kept as its UTF-8 bytes.
  A dictionary is an association list read with \<open>map_of\<close>. JSON numbers with a fraction
  or an exponent (Python floats) are not part of the modelled documents.
\<close>

datatype json =
    JNull
  | JBool bool
  | JInt int
  | JStr string
  | JArr "json list"
  | JObj "(string \<times> json) list"

record completed =
  returncode :: int
  stdout :: string
  stderr :: string

datatype exn =
    CalledProcessError completed
  | OSError
  | UnicodeDecodeError
  | JSONDecodeError
  | KeyError
  | IndexError
  | TypeError
  | OverflowError
  | ZeroDivisionError

text \<open>
  A \<^verbatim>\<open>print\<close> call appends one item to the console output. The text of an exception
  interpolated by \<^verbatim>\<open>print(f"Error processing data: {e}")\<close> is left symbolic: the item
  \<open>ErrLine prefix e\<close> stands for the prefix followed by \<^verbatim>\<open>str(e)\<close>.
  A computation yields what it printed and either the exception that left it or its value.
\<close>

datatype printed = Line string | ErrLine string exn

type_synonym 'a io = "printed list \<times> (exn + 'a)"

definition io_return :: "'a \<Rightarrow> 'a io" where
  "io_return x = ([], Inr x)"

definition io_raise :: "exn \<Rightarrow> 'a io" where
  "io_raise e = ([], Inl e)"

definition io_print :: "printed \<Rightarrow> unit io" where
  "io_print p = ([p], Inr ())"

definition io_bind :: "'a io \<Rightarrow> ('a \<Rightarrow> 'b io) \<Rightarrow> 'b io" where
  "io_bind m f =
     (case m of
        (out1, Inl e) \<Rightarrow> (out1, Inl e)
      | (out1, Inr x) \<Rightarrow> (case f x of (out2, r) \<Rightarrow> (out1 @ out2, r)))"

subsection \<open>Truth value, iteration, subscription and membership\<close>

fun truthy :: "json \<Rightarrow> bool" where
  "truthy JNull = False"
| "truthy (JBool b) = b"
| "truthy (JInt n) = (n \<noteq> 0)"
| "truthy (JStr s) = (s \<noteq> [])"
| "truthy (JArr xs) = (xs \<noteq> [])"
| "truthy (JObj kvs) = (kvs \<noteq> [])"

text \<open>\<^verbatim>\<open>for x in v\<close>: a list gives its elements, a dictionary its keys, a string its
  characters; anything else is not iterable.\<close>

fun py_iter :: "json \<Rightarrow> exn + json list" where
  "py_iter (JArr xs) = Inr xs"
| "py_iter (JObj kvs) = Inr (map (\<lambda>kv. JStr (fst kv)) kvs)"
| "py_iter (JStr s) = Inr (map (\<lambda>c. JStr [c]) s)"
| "py_iter JNull = Inl TypeError"
| "py_iter (JBool b) = Inl TypeError"
| "py_iter (JInt n) = Inl TypeError"

text \<open>\<^verbatim>\<open>v[k]\<close> for a string key \<open>k\<close>: only a dictionary can be subscripted by a string.\<close>

fun py_getitem :: "json \<Rightarrow> string \<Rightarrow> exn + json" where
  "py_getitem (JObj kvs) k = (case map_of kvs k of None \<Rightarrow> Inl KeyError | Some v \<Rightarrow> Inr v)"
| "py_getitem JNull k = Inl TypeError"
| "py_getitem (JBool b) k = Inl TypeError"
| "py_getitem (JInt n) k = Inl TypeError"
| "py_getitem (JStr s) k = Inl TypeError"
| "py_getitem (JArr xs) k = Inl TypeError"

fun startswith :: "string \<Rightarrow> string \<Rightarrow> bool" where
  "startswith s [] = True"
| "startswith [] (p # ps) = False"
| "startswith (c # cs) (p # ps) = (c = p \<and> startswith cs ps)"

fun str_contains :: "string \<Rightarrow> string \<Rightarrow> bool" where
  "str_contains [] sub = (sub = [])"
| "str_contains (c # cs) sub = (startswith (c # cs) sub \<or> str_contains cs sub)"

text \<open>\<^verbatim>\<open>k in v\<close> for a string \<open>k\<close>: key membership in a dictionary, element membership
  in a list, substring test in a string, a \<^verbatim>\<open>TypeError\<close> otherwise.\<close>

fun py_in :: "string \<Rightarrow> json \<Rightarrow> exn + bool" where
  "py_in k (JObj kvs) = Inr (map_of kvs k \<noteq> None)"
| "py_in k (JArr xs) = Inr (JStr k \<in> set xs)"
| "py_in k (JStr s) = Inr (str_contains s k)"
| "py_in k JNull = Inl TypeError"
| "py_in k (JBool b) = Inl TypeError"
| "py_in k (JInt n) = Inl TypeError"

text \<open>The exceptions named by \<^verbatim>\<open>except (KeyError, IndexError, TypeError)\<close>.\<close>

definition caught :: "exn \<Rightarrow> bool" where
  "caught e = (e = KeyError \<or> e = IndexError \<or> e = TypeError)"

section \<open>The catalog client adapter\<close>

text \<open>
  What lies outside the script is a parameter: the external client (given the argument
  vector, it either cannot be started or completes with an exit status and two captured
  byte streams), \<^verbatim>\<open>json.loads\<close> (\<open>None\<close> when it raises \<^verbatim>\<open>JSONDecodeError\<close>) and
  \<^verbatim>\<open>str()\<close> of a decoded value that is not itself a string.
\<close>

record world =
  client :: "string list \<Rightarrow> completed option"
  json_loads :: "string \<Rightarrow> json option"
  py_str :: "json \<Rightarrow> string"

text \<open>\<^verbatim>\<open>bytes.decode('utf-8')\<close> with strict error handling: the well-formed byte
  sequences of UTF-8 (no overlong forms, no surrogates, nothing above U+10FFFF).\<close>

definition byte_in :: "nat \<Rightarrow> nat \<Rightarrow> char \<Rightarrow> bool" where
  "byte_in lo hi c = (lo \<le> of_char c \<and> of_char c \<le> hi)"

fun utf8_valid :: "string \<Rightarrow> bool" where
  "utf8_valid [] = True"
| "utf8_valid (b0 # bs) =
     (if byte_in 0x00 0x7F b0 then utf8_valid bs
      else if byte_in 0xC2 0xDF b0 then
        (case bs of b1 # r \<Rightarrow> byte_in 0x80 0xBF b1 \<and> utf8_valid r | _ \<Rightarrow> False)
      else if byte_in 0xE0 0xEF b0 then
        (case bs of
           b1 # b2 # r \<Rightarrow>
             (if b0 = CHR 0xE0 then byte_in 0xA0 0xBF b1
              else if b0 = CHR 0xED then byte_in 0x80 0x9F b1
              else byte_in 0x80 0xBF b1)
             \<and> byte_in 0x80 0xBF b2 \<and> utf8_valid r
         | _ \<Rightarrow> False)
      else if byte_in 0xF0 0xF4 b0 then
        (case bs of
           b1 # b2 # b3 # r \<Rightarrow>
             (if b0 = CHR 0xF0 then byte_in 0x90 0xBF b1
              else if b0 = CHR 0xF4 then byte_in 0x80 0x8F b1
              else byte_in 0x80 0xBF b1)
             \<and> byte_in 0x80 0xBF b2 \<and> byte_in 0x80 0xBF b3 \<and> utf8_valid r
         | _ \<Rightarrow> False)
      else False)"

definition decode_utf8 :: "string \<Rightarrow> exn + string" where
  "decode_utf8 bs = (if utf8_valid bs then Inr bs else Inl UnicodeDecodeError)"

text \<open>\<^verbatim>\<open>subprocess.run(..., check=True)\<close>: a non-zero exit status raises
  \<^verbatim>\<open>CalledProcessError\<close>, which carries the captured streams.\<close>

definition subprocess_run :: "world \<Rightarrow> string list \<Rightarrow> exn + completed" where
  "subprocess_run W argv =
     (case client W argv of
        None \<Rightarrow> Inl OSError
      | Some p \<Rightarrow> if returncode p \<noteq> 0 then Inl (CalledProcessError p) else Inr p)"

text \<open>Lines 8 to 20. The handler decodes the captured error stream before it prints, and
  only \<^verbatim>\<open>CalledProcessError\<close> is handled. The value \<^verbatim>\<open>None\<close> is \<open>JNull\<close>.\<close>

definition get_das_data :: "world \<Rightarrow> string \<Rightarrow> json io" where
  "get_das_data W query =
     (case subprocess_run W [''dasgoclient'', ''--query'', query, ''--json''] of
        Inr result \<Rightarrow>
          (case decode_utf8 (stdout result) of
             Inl e \<Rightarrow> io_raise e
           | Inr data \<Rightarrow>
               (case json_loads W data of
                  None \<Rightarrow> io_raise JSONDecodeError
                | Some v \<Rightarrow> io_return v))
      | Inl (CalledProcessError e) \<Rightarrow>
          (case decode_utf8 (stderr e) of
             Inl e' \<Rightarrow> io_raise e'
           | Inr msg \<Rightarrow>
               io_bind (io_print (Line (''Error executing dasgoclient: '' @ msg)))
                 (\<lambda>_. io_return JNull))
      | Inl other \<Rightarrow> io_raise other)"

section \<open>The dataset lister\<close>

definition dataset_query :: "string \<Rightarrow> string" where
  "dataset_query x = ''dataset dataset='' @ x @ '' instance=prod/global''"

text \<open>Line 36, for every \<^verbatim>\<open>ds_info\<close> of one record.\<close>

fun append_names :: "json list \<Rightarrow> json list \<Rightarrow> exn + json list" where
  "append_names datasets [] = Inr datasets"
| "append_names datasets (ds_info # rest) =
     (case py_getitem ds_info ''name'' of
        Inl e \<Rightarrow> Inl e
      | Inr name \<Rightarrow> append_names (datasets @ [name]) rest)"

text \<open>Lines 34 to 36, for every \<^verbatim>\<open>entry\<close> of the data.\<close>

fun walk_entries :: "json list \<Rightarrow> json list \<Rightarrow> exn + json list" where
  "walk_entries datasets [] = Inr datasets"
| "walk_entries datasets (entry # rest) =
     (case py_getitem entry ''dataset'' of
        Inl e \<Rightarrow> Inl e
      | Inr v \<Rightarrow>
          (case py_iter v of
             Inl e \<Rightarrow> Inl e
           | Inr infos \<Rightarrow>
               (case append_names datasets infos of
                  Inl e \<Rightarrow> Inl e
                | Inr datasets' \<Rightarrow> walk_entries datasets' rest)))"

text \<open>Lines 28 to 40: what the lister makes of the adapter's result.\<close>

definition datasets_of_data :: "string \<Rightarrow> json \<Rightarrow> json list io" where
  "datasets_of_data pattern data =
     (if \<not> truthy data then
        io_bind (io_print (Line (''No data found for pattern '' @ pattern))) (\<lambda>_. io_return [])
      else
        (case (case py_iter data of Inl e \<Rightarrow> Inl e | Inr entries \<Rightarrow> walk_entries [] entries) of
           Inr datasets \<Rightarrow> io_return datasets
         | Inl e \<Rightarrow>
             if caught e then
               io_bind (io_print (ErrLine ''Error processing data: '' e)) (\<lambda>_. io_return [])
             else io_raise e))"

definition get_datasets :: "world \<Rightarrow> string \<Rightarrow> json list io" where
  "get_datasets W pattern =
     io_bind (io_print (Line (''Executing query: '' @ dataset_query pattern)))
       (\<lambda>_. io_bind (get_das_data W (dataset_query pattern)) (datasets_of_data pattern))"

section \<open>The dataset metadata fetcher\<close>

text \<open>
  The function returns a pair at lines 48, 59 and 62. When both loops end without a
  match no \<^verbatim>\<open>return\<close> statement is reached and the call yields \<^verbatim>\<open>None\<close>, which is
  not a pair.
\<close>

datatype returned = ReturnedNone | ReturnedPair json json

text \<open>Lines 55 to 59, for every \<^verbatim>\<open>ds_info\<close> of one record: \<open>Some\<close> is the pair
  returned at line 59, \<open>None\<close> the end of the loop.\<close>

fun scan_infos :: "json list \<Rightarrow> exn + (json \<times> json) option" where
  "scan_infos [] = Inr None"
| "scan_infos (ds_info # rest) =
     (case py_in ''size'' ds_info of
        Inl e \<Rightarrow> Inl e
      | Inr False \<Rightarrow> scan_infos rest
      | Inr True \<Rightarrow>
          (case py_in ''nevents'' ds_info of
             Inl e \<Rightarrow> Inl e
           | Inr False \<Rightarrow> scan_infos rest
           | Inr True \<Rightarrow>
               (case py_getitem ds_info ''size'' of
                  Inl e \<Rightarrow> Inl e
                | Inr dataset_size \<Rightarrow>
                    (case py_getitem ds_info ''nevents'' of
                       Inl e \<Rightarrow> Inl e
                     | Inr num_events \<Rightarrow> Inr (Some (dataset_size, num_events))))))"

text \<open>Lines 54 to 59, for every \<^verbatim>\<open>entry\<close> of the data.\<close>

fun scan_entries :: "json list \<Rightarrow> exn + (json \<times> json) option" where
  "scan_entries [] = Inr None"
| "scan_entries (entry # rest) =
     (case py_getitem entry ''dataset'' of
        Inl e \<Rightarrow> Inl e
      | Inr v \<Rightarrow>
          (case py_iter v of
             Inl e \<Rightarrow> Inl e
           | Inr infos \<Rightarrow>
               (case scan_infos infos of
                  Inl e \<Rightarrow> Inl e
                | Inr (Some found) \<Rightarrow> Inr (Some found)
                | Inr None \<Rightarrow> scan_entries rest)))"

text \<open>Lines 47 to 62: what the fetcher makes of the adapter's result.\<close>

definition info_of_data :: "json \<Rightarrow> returned io" where
  "info_of_data data =
     (if \<not> truthy data then io_return (ReturnedPair JNull JNull)
      else
        (case (case py_iter data of Inl e \<Rightarrow> Inl e | Inr entries \<Rightarrow> scan_entries entries) of
           Inr (Some (dataset_size, num_events)) \<Rightarrow>
             io_return (ReturnedPair dataset_size num_events)
         | Inr None \<Rightarrow> io_return ReturnedNone
         | Inl e \<Rightarrow>
             if caught e then
               io_bind (io_print (ErrLine ''Error processing data: '' e))
                 (\<lambda>_. io_return (ReturnedPair JNull JNull))
             else io_raise e))"

text \<open>The dataset handed to the fetcher is whatever the lister collected under
  \<^verbatim>\<open>name\<close>; the f-string at line 44 formats it with \<^verbatim>\<open>str()\<close>.\<close>

definition format_value :: "world \<Rightarrow> json \<Rightarrow> string" where
  "format_value W v = (case v of JStr s \<Rightarrow> s | _ \<Rightarrow> py_str W v)"

definition get_dataset_info :: "world \<Rightarrow> json \<Rightarrow> returned io" where
  "get_dataset_info W dataset =
     io_bind (get_das_data W (dataset_query (format_value W dataset))) info_of_data"

section \<open>The aggregator\<close>

text \<open>
  The dictionary built at lines 66 to 72. The three totals start at the integer 0 and
  only ever have an integer or a boolean added to them, so they stay integers. A
  \<^verbatim>\<open>defaultdict(int)\<close> is an association list in insertion order; reading an absent
  key yields \<^verbatim>\<open>int()\<close>, which is 0.
\<close>

record results =
  total_datasets :: int
  total_size :: int
  total_events :: int
  size_by_year :: "(string \<times> int) list"
  count_by_year :: "(string \<times> int) list"

definition new_results :: results where
  "new_results =
     \<lparr>total_datasets = 0, total_size = 0, total_events = 0,
      size_by_year = [], count_by_year = []\<rparr>"

definition dd_get :: "(string \<times> int) list \<Rightarrow> string \<Rightarrow> int" where
  "dd_get d k = (case map_of d k of None \<Rightarrow> 0 | Some v \<Rightarrow> v)"

fun dd_set :: "(string \<times> int) list \<Rightarrow> string \<Rightarrow> int \<Rightarrow> (string \<times> int) list" where
  "dd_set [] k v = [(k, v)]"
| "dd_set ((k', v') # d) k v = (if k' = k then (k', v) # d else (k', v') # dd_set d k v)"

text \<open>\<^verbatim>\<open>a + v\<close> for an integer \<open>a\<close>: defined for an integer and for a boolean (which
  counts as 0 or 1), a \<^verbatim>\<open>TypeError\<close> for \<^verbatim>\<open>None\<close>, strings, lists and
  dictionaries.\<close>

fun int_add :: "int \<Rightarrow> json \<Rightarrow> exn + int" where
  "int_add a (JInt n) = Inr (a + n)"
| "int_add a (JBool b) = Inr (a + (if b then 1 else 0))"
| "int_add a JNull = Inl TypeError"
| "int_add a (JStr s) = Inl TypeError"
| "int_add a (JArr xs) = Inl TypeError"
| "int_add a (JObj kvs) = Inl TypeError"

text \<open>Lines 85 and 86 (88 and 89, 91 and 92) for the year given.\<close>

definition add_to_year :: "results \<Rightarrow> string \<Rightarrow> json \<Rightarrow> exn + results" where
  "add_to_year r year size' =
     (case int_add (dd_get (size_by_year r) year) size' of
        Inl e \<Rightarrow> Inl e
      | Inr s \<Rightarrow>
          Inr (r\<lparr>size_by_year := dd_set (size_by_year r) year s,
                 count_by_year :=
                   dd_set (count_by_year r) year (dd_get (count_by_year r) year + 1)\<rparr>))"

text \<open>Lines 79 to 92: one dataset with its fetched size and event count.\<close>

definition count_dataset :: "results \<Rightarrow> json \<Rightarrow> json \<Rightarrow> json \<Rightarrow> exn + results" where
  "count_dataset r dataset size' events =
     (if size' \<noteq> JNull \<and> events \<noteq> JNull then
        (case int_add (total_size r) size' of
           Inl e \<Rightarrow> Inl e
         | Inr ts \<Rightarrow>
             (case int_add (total_events r) events of
                Inl e \<Rightarrow> Inl e
              | Inr te \<Rightarrow>
                  (let r1 = r\<lparr>total_datasets := total_datasets r + 1,
                               total_size := ts, total_events := te\<rparr>
                   in case py_in ''Run2022'' dataset of
                        Inl e \<Rightarrow> Inl e
                      | Inr True \<Rightarrow> add_to_year r1 ''2022'' size'
                      | Inr False \<Rightarrow>
                          (case py_in ''Run2023'' dataset of
                             Inl e \<Rightarrow> Inl e
                           | Inr True \<Rightarrow> add_to_year r1 ''2023'' size'
                           | Inr False \<Rightarrow>
                               (case py_in ''Run2024'' dataset of
                                  Inl e \<Rightarrow> Inl e
                                | Inr True \<Rightarrow> add_to_year r1 ''2024'' size'
                                | Inr False \<Rightarrow> Inr r1)))))
      else Inr r)"

text \<open>Line 78: \<^verbatim>\<open>size, events = get_dataset_info(dataset)\<close> unpacks a pair;
  \<^verbatim>\<open>None\<close> cannot be unpacked.\<close>

definition unpack_pair :: "returned \<Rightarrow> exn + json \<times> json" where
  "unpack_pair v =
     (case v of ReturnedNone \<Rightarrow> Inl TypeError | ReturnedPair a b \<Rightarrow> Inr (a, b))"

definition io_lift :: "exn + 'a \<Rightarrow> 'a io" where
  "io_lift v = ([], v)"

text \<open>Lines 77 to 92, with the fetcher as a parameter. The progress bar of
  \<^verbatim>\<open>tqdm\<close> goes to the standard error stream and is not part of the output.\<close>

fun fold_datasets :: "(json \<Rightarrow> returned io) \<Rightarrow> results \<Rightarrow> json list \<Rightarrow> results io" where
  "fold_datasets fetch r [] = io_return r"
| "fold_datasets fetch r (dataset # rest) =
     io_bind (fetch dataset) (\<lambda>info.
     io_bind (io_lift (unpack_pair info)) (\<lambda>(size', events).
     io_bind (io_lift (count_dataset r dataset size' events)) (\<lambda>r'.
     fold_datasets fetch r' rest)))"

text \<open>Lines 74 to 92, with the lister and the fetcher as parameters.\<close>

fun fold_patterns ::
  "(string \<Rightarrow> json list io) \<Rightarrow> (json \<Rightarrow> returned io) \<Rightarrow> results \<Rightarrow> string list \<Rightarrow> results io"
where
  "fold_patterns list fetch r [] = io_return r"
| "fold_patterns list fetch r (pattern # rest) =
     io_bind (list pattern) (\<lambda>datasets.
     io_bind (fold_datasets fetch r datasets) (\<lambda>r'.
     fold_patterns list fetch r' rest))"

definition aggregate ::
  "(string \<Rightarrow> json list io) \<Rightarrow> (json \<Rightarrow> returned io) \<Rightarrow> string \<Rightarrow> string list \<Rightarrow> results io"
where
  "aggregate list fetch group_name patterns = fold_patterns list fetch new_results patterns"

text \<open>Lines 65 to 94.\<close>

definition process_datasets :: "world \<Rightarrow> string \<Rightarrow> string list \<Rightarrow> results io" where
  "process_datasets W group_name patterns =
     aggregate (get_datasets W) (get_dataset_info W) group_name patterns"

section \<open>The reporter\<close>

text \<open>
  True division makes Python floats out of the integer totals. A float that occurs here
  is finite and is kept as the rational number it denotes. \<open>round_double\<close> rounds a
  rational to the nearest binary64 number, ties to the even significand, with gradual
  underflow; it is applied only below the overflow threshold, which the operations test
  first, as CPython does.
\<close>

definition round_half_even :: "rat \<Rightarrow> int" where
  "round_half_even q =
     (let f = \<lfloor>q\<rfloor>; d = q - of_int f
      in if d < 1 / 2 then f else if 1 / 2 < d then f + 1 else if even f then f else f + 1)"

text \<open>The exponent \<open>e\<close> with \<open>2 powi e \<le> \<bar>q\<bar> < 2 powi (e + 1)\<close>, for \<open>q \<noteq> 0\<close>.\<close>

definition binade :: "rat \<Rightarrow> int" where
  "binade q =
     (case quotient_of \<bar>q\<bar> of (a, b) \<Rightarrow>
        (let e = bitlen a - bitlen b
         in if 2 powi e \<le> \<bar>q\<bar> then e else e - 1))"

definition round_double :: "rat \<Rightarrow> rat" where
  "round_double q =
     (if q = 0 then 0
      else (let ulp = 2 powi (max (binade q) (- 1022) - 52)
            in of_int (round_half_even (q / ulp)) * ulp))"

text \<open>A magnitude of at least \<open>2 ^ 1024 - 2 ^ 970\<close> would round to \<open>2 ^ 1024\<close>, which
  is no binary64 number.\<close>

definition dbl_overflows :: "rat \<Rightarrow> bool" where
  "dbl_overflows q = (2 ^ 1024 - 2 ^ 970 \<le> \<bar>q\<bar>)"

text \<open>\<^verbatim>\<open>float(n)\<close> as applied to an integer operand of a float operation
  (\<^verbatim>\<open>OverflowError: int too large to convert to float\<close>).\<close>

definition float_of_int :: "int \<Rightarrow> exn + rat" where
  "float_of_int n =
     (if dbl_overflows (of_int n) then Inl OverflowError else Inr (round_double (of_int n)))"

text \<open>\<^verbatim>\<open>a / b\<close> for two integers: the correctly rounded quotient
  (\<^verbatim>\<open>OverflowError: integer division result too large for a float\<close>).\<close>

definition int_truediv :: "int \<Rightarrow> int \<Rightarrow> exn + rat" where
  "int_truediv a b =
     (if b = 0 then Inl ZeroDivisionError
      else if dbl_overflows (of_int a / of_int b) then Inl OverflowError
      else Inr (round_double (of_int a / of_int b)))"

text \<open>\<^verbatim>\<open>x / n\<close> for a float and an integer: the integer is converted first, a zero
  divisor raises, and the quotient of two floats is rounded. The divisor has magnitude
  at least 1, so the quotient does not overflow.\<close>

definition float_truediv_int :: "rat \<Rightarrow> int \<Rightarrow> exn + rat" where
  "float_truediv_int x n =
     (case float_of_int n of
        Inl e \<Rightarrow> Inl e
      | Inr y \<Rightarrow> if y = 0 then Inl ZeroDivisionError else Inr (round_double (x / y)))"

text \<open>The averages are a float or, in the \<^verbatim>\<open>else\<close> branch, the integer 0.\<close>

datatype number = PyInt int | PyFloat rat

text \<open>The decimal digits of an integer that is not negative.\<close>

function digits :: "int \<Rightarrow> string" where
  "digits n =
     (if n < 10 then [''0123456789'' ! nat n]
      else digits (n div 10) @ [''0123456789'' ! nat (n mod 10)])"
  by pat_completeness auto

termination
  by (relation "measure nat") auto

declare digits.simps [simp del]

text \<open>\<^verbatim>\<open>str(n)\<close> of an integer, as an f-string without a format specification
  shows it. (The limit that Python 3.11 puts on the number of digits of such a
  conversion, 4300 by default, is beyond any count of datasets and is left out.)\<close>

definition str_of_int :: "int \<Rightarrow> string" where
  "str_of_int n = (if n < 0 then ''-'' @ digits (- n) else digits n)"

text \<open>The format specification \<^verbatim>\<open>.pf\<close>: the decimal expansion with \<open>p\<close> digits after
  the point nearest to the float's exact value, ties to even, and the sign of a negative
  value even when only zeros are left. \<open>fixed_digits p n\<close> writes \<open>n / 10 ^ p\<close>.\<close>

definition fixed_digits :: "nat \<Rightarrow> int \<Rightarrow> string" where
  "fixed_digits p n =
     digits (n div 10 ^ p) @
     (if p = 0 then []
      else ''.'' @ replicate (p - length (digits (n mod 10 ^ p))) CHR ''0'' @
           digits (n mod 10 ^ p))"

definition format_fixed :: "nat \<Rightarrow> rat \<Rightarrow> string" where
  "format_fixed p x =
     (if x < 0 then ''-'' else []) @ fixed_digits p (round_half_even (\<bar>x\<bar> * 10 ^ p))"

text \<open>An integer is converted to a float before it is formatted with \<^verbatim>\<open>f\<close>.\<close>

definition format_number :: "nat \<Rightarrow> number \<Rightarrow> exn + string" where
  "format_number p v =
     (case v of
        PyFloat x \<Rightarrow> Inr (format_fixed p x)
      | PyInt n \<Rightarrow>
          (case float_of_int n of Inl e \<Rightarrow> Inl e | Inr x \<Rightarrow> Inr (format_fixed p x)))"

text \<open>Lines 132 and 133.\<close>

definition total_size_tb :: "results \<Rightarrow> exn + rat" where
  "total_size_tb r = int_truediv (total_size r) (1024 ^ 4)"

text \<open>Lines 134 and 135, and 136 and 137: the guarded quotient of the size in terabytes
  by a total.\<close>

definition average_size :: "rat \<Rightarrow> int \<Rightarrow> exn + number" where
  "average_size size_tb n =
     (if n > 0 then
        (case float_truediv_int size_tb n of Inl e \<Rightarrow> Inl e | Inr x \<Rightarrow> Inr (PyFloat x))
      else Inr (PyInt 0))"

text \<open>Lines 132 to 137: the size in terabytes, the average size per dataset and the
  average size per event, in the order in which they are computed.\<close>

definition averages :: "results \<Rightarrow> exn + rat \<times> number \<times> number" where
  "averages r =
     (case total_size_tb r of
        Inl e \<Rightarrow> Inl e
      | Inr size_tb \<Rightarrow>
          (case average_size size_tb (total_datasets r) of
             Inl e \<Rightarrow> Inl e
           | Inr average_size_per_dataset_tb \<Rightarrow>
               (case average_size size_tb (total_events r) of
                  Inl e \<Rightarrow> Inl e
                | Inr average_size_per_event_tb \<Rightarrow>
                    Inr (size_tb, average_size_per_dataset_tb, average_size_per_event_tb))))"

text \<open>Lines 144 to 147 for one year. Both lookups go to a \<^verbatim>\<open>defaultdict\<close>.\<close>

definition report_year :: "results \<Rightarrow> string \<Rightarrow> unit io" where
  "report_year r year =
     io_bind
       (io_print (Line (''Total number of datasets in '' @ year @ '': '' @
                        str_of_int (dd_get (count_by_year r) year))))
       (\<lambda>_. io_bind (io_lift (int_truediv (dd_get (size_by_year r) year) (1024 ^ 4)))
          (\<lambda>tb. io_print (Line (''Total size of datasets in '' @ year @ '': '' @
                                 format_fixed 2 tb @ '' TB''))))"

fun report_years :: "results \<Rightarrow> string list \<Rightarrow> unit io" where
  "report_years r [] = io_return ()"
| "report_years r (year # rest) = io_bind (report_year r year) (\<lambda>_. report_years r rest)"

text \<open>Lines 132 to 151 for one group.\<close>

definition report_group :: "string \<Rightarrow> results \<Rightarrow> unit io" where
  "report_group group_name r =
     io_bind (io_lift (averages r))
       (\<lambda>(size_tb, average_size_per_dataset_tb, average_size_per_event_tb).
     io_bind (io_print (Line (CHR 0x0A # ''Group: '' @ group_name))) (\<lambda>_.
     io_bind (io_print (Line (''Total number of datasets: '' @ str_of_int (total_datasets r))))
       (\<lambda>_.
     io_bind (io_print (Line (''Total size of all datasets: '' @ format_fixed 2 size_tb @
                              '' TB''))) (\<lambda>_.
     io_bind (report_years r [''2022'', ''2023'', ''2024'']) (\<lambda>_.
     io_bind (io_lift (format_number 2 average_size_per_dataset_tb)) (\<lambda>per_dataset.
     io_bind (io_print (Line (''Average size per dataset: '' @ per_dataset @ '' TB''))) (\<lambda>_.
     io_bind (io_lift (format_number 12 average_size_per_event_tb)) (\<lambda>per_event.
     io_print (Line (''Average size per event: '' @ per_event @ '' TB''))))))))))"

section \<open>The main program\<close>

definition group_patterns :: "(string \<times> string list) list" where
  "group_patterns =
     [(''PPS'', [''/*/Run202*PPSCalMaxTracks*PromptReco*/ALCA*'']),
      (''TkAl'',
        [''/*/Run202*-TkAlCosmics0T-PromptReco*/ALCARECO'',
         ''/*/Run202*-TkAlCosmicsInCollisions-PromptReco-v*/ALCARECO'',
         ''/*/Run202*-TkAlMinBias-PromptReco*/ALCARECO'',
         ''/*/Run202*-TkAlZMuMu-PromptReco*/ALCARECO'',
         ''/*/Run202*-TkAlMuonIsolated-PromptReco*/ALCARECO'',
         ''/*/Run202*-TkAlDiMuonAndVertex-PromptReco*/ALCARECO'',
         ''/*/Run202*-TkAlUpsilonMuMu-PromptReco*/ALCARECO'',
         ''/*/Run202*-TkAlJpsiMuMu-PromptReco*/ALCARECO'',
         ''/*/Run202*-TkAlJetHT-PromptReco*/ALCARECO'',
         ''/*/Run202*-TkAlV0s-PromptReco*/ALCARECO/'']),
      (''BRIL'',
        [''/*/Run202*-AlCaPCCZeroBias-PromptReco*/ALCARECO'',
         ''/*/Run202*-AlCaPCCRandom-PromptReco*/ALCARECO'']),
      (''ECAL'',
        [''/*/Run202*-EcalUncalWElectron-PromptReco*/ALCARECO'',
         ''/*/Run202*-EcalUncalZElectron-PromptReco*/ALCARECO'']),
      (''Pixel'',
        [''/*/Run202*SiPixelCalSingleMuon*PromptReco*/ALCARECO'',
         ''/*/Run202*SiPixelCalSingleMuonTight*PromptReco*/ALCARECO''])]"

text \<open>Lines 128 and 129. The group names are distinct, so every assignment adds an entry.\<close>

fun process_groups ::
  "world \<Rightarrow> (string \<times> string list) list \<Rightarrow> (string \<times> results) list io"
where
  "process_groups W [] = io_return []"
| "process_groups W ((group_name, patterns) # rest) =
     io_bind (process_datasets W group_name patterns) (\<lambda>r.
     io_bind (process_groups W rest) (\<lambda>group_results.
     io_return ((group_name, r) # group_results)))"

text \<open>Lines 131 to 151.\<close>

fun report_groups :: "(string \<times> results) list \<Rightarrow> unit io" where
  "report_groups [] = io_return ()"
| "report_groups ((group_name, r) # rest) =
     io_bind (report_group group_name r) (\<lambda>_. report_groups rest)"

definition main :: "world \<Rightarrow> unit io" where
  "main W = io_bind (process_groups W group_patterns) report_groups"

section \<open>Terms in which the properties are stated\<close>

text \<open>The shape that the lister expects of a record: a dictionary whose \<^verbatim>\<open>dataset\<close>
  entry can be iterated and yields dictionaries with a \<^verbatim>\<open>name\<close>. A record fails to
  match it exactly when walking it alone raises (\<open>record_names\<close>).\<close>

definition has_name :: "json \<Rightarrow> bool" where
  "has_name ds_info = (case ds_info of JObj kvs \<Rightarrow> map_of kvs ''name'' \<noteq> None | _ \<Rightarrow> False)"

definition record_ok :: "json \<Rightarrow> bool" where
  "record_ok entry =
     (case entry of
        JObj kvs \<Rightarrow>
          (case map_of kvs ''dataset'' of
             Some v \<Rightarrow> (case py_iter v of Inr infos \<Rightarrow> list_all has_name infos | Inl e \<Rightarrow> False)
           | None \<Rightarrow> False)
      | _ \<Rightarrow> False)"

definition record_names :: "json \<Rightarrow> exn + json list" where
  "record_names entry = walk_entries [] [entry]"

text \<open>The year bucket of a dataset name as the specification words it: the first of the
  three tokens, in this order, that the name contains.\<close>

definition year_of :: "json \<Rightarrow> string option" where
  "year_of dataset =
     (if py_in ''Run2022'' dataset = Inr True then Some ''2022''
      else if py_in ''Run2023'' dataset = Inr True then Some ''2023''
      else if py_in ''Run2024'' dataset = Inr True then Some ''2024''
      else None)"

text \<open>The integer that a decoded JSON integer or boolean adds to a total.\<close>

definition int_of :: "json \<Rightarrow> int" where
  "int_of v = (case int_add 0 v of Inr n \<Rightarrow> n | Inl e \<Rightarrow> 0)"

text \<open>A dataset of size \<open>n\<close> with \<open>m\<close> events counted into the totals and into the bucket
  given, if any.\<close>

definition counted_into :: "results \<Rightarrow> int \<Rightarrow> int \<Rightarrow> string option \<Rightarrow> results" where
  "counted_into r n m bucket =
     (let r1 = r\<lparr>total_datasets := total_datasets r + 1,
                  total_size := total_size r + n, total_events := total_events r + m\<rparr>
      in case bucket of
           None \<Rightarrow> r1
         | Some year \<Rightarrow>
             r1\<lparr>size_by_year := dd_set (size_by_year r) year (dd_get (size_by_year r) year + n),
                count_by_year :=
                  dd_set (count_by_year r) year (dd_get (count_by_year r) year + 1)\<rparr>)"

text \<open>The datasets listed for a sequence of patterns, in order, and the test whether a
  dataset is counted: the fetcher yields a pair without \<^verbatim>\<open>None\<close>.\<close>

definition listed :: "(string \<Rightarrow> json list io) \<Rightarrow> string list \<Rightarrow> json list" where
  "listed list patterns =
     concat (map (\<lambda>p. case snd (list p) of Inr datasets \<Rightarrow> datasets | Inl e \<Rightarrow> []) patterns)"

definition counted :: "(json \<Rightarrow> returned io) \<Rightarrow> json \<Rightarrow> bool" where
  "counted fetch dataset =
     (case snd (fetch dataset) of
        Inr (ReturnedPair s e) \<Rightarrow> s \<noteq> JNull \<and> e \<noteq> JNull
      | _ \<Rightarrow> False)"

text \<open>The aggregator as a fold over the listed datasets with their fetched metadata.\<close>

definition tally :: "(json \<Rightarrow> returned io) \<Rightarrow> results \<Rightarrow> json \<Rightarrow> results" where
  "tally fetch r dataset =
     (if counted fetch dataset then
        (case snd (fetch dataset) of
           Inr (ReturnedPair s e) \<Rightarrow> counted_into r (int_of s) (int_of e) (year_of dataset)
         | _ \<Rightarrow> r)
      else r)"

definition gap :: "results \<Rightarrow> int" where
  "gap r = total_datasets r - sum_list (map snd (count_by_year r))"

text \<open>The totals for which no conversion to a float overflows on the way to the
  averages.\<close>

definition in_float_range :: "results \<Rightarrow> bool" where
  "in_float_range r =
     (\<not> dbl_overflows (of_int (total_size r) / 1024 ^ 4) \<and>
      (0 < total_datasets r \<longrightarrow> \<not> dbl_overflows (of_int (total_datasets r))) \<and>
      (0 < total_events r \<longrightarrow> \<not> dbl_overflows (of_int (total_events r))))"

section \<open>A sample catalog\<close>

text \<open>
  Concrete surroundings for the examples: a client that exits with status 0 and writes
  its query to the standard output, and a decoder that maps that text to the document
  which the catalog holds for the query. Text that stands for no document is rejected.
\<close>

definition echo_client :: "string list \<Rightarrow> completed option" where
  "echo_client argv =
     (case argv of
        [prog, opt, query, fmt] \<Rightarrow> Some \<lparr>returncode = 0, stdout = query, stderr = []\<rparr>
      | _ \<Rightarrow> None)"

definition info_record :: "string \<Rightarrow> int \<Rightarrow> int \<Rightarrow> json" where
  "info_record name sz ev =
     JObj [(''dataset'',
            JArr [JObj [(''name'', JStr name), (''size'', JInt sz), (''nevents'', JInt ev)]])]"

definition name_record :: "string \<Rightarrow> json" where
  "name_record name = JObj [(''dataset'', JArr [JObj [(''name'', JStr name)]])]"

definition sample_catalog :: "string \<Rightarrow> json option" where
  "sample_catalog text =
     (if text = dataset_query ''/*/Run202*-Sample-PromptReco*/ALCARECO'' then
        Some (JArr [name_record ''/A/Run2022X/ALCARECO'', name_record ''/B/Run2023Y/ALCARECO''])
      else if text = dataset_query ''/*/Commissioning*/ALCARECO'' then
        Some (JArr [name_record ''/C/Commissioning/ALCARECO''])
      else if text = dataset_query ''/*/Run202*-Bare*/ALCARECO'' then
        Some (JArr [name_record ''/D/Run2024Z/ALCARECO''])
      else if text = dataset_query ''/*/Run202*-Huge*/ALCARECO'' then
        Some (JArr [name_record ''/E/Huge/ALCARECO''])
      else if text = dataset_query ''/*/Run202*-Broken*/ALCARECO'' then
        Some (JArr [name_record ''/A/Run2022X/ALCARECO'', JObj [(''das'', JNull)]])
      else if text = dataset_query ''/A/Run2022X/ALCARECO'' then
        Some (JArr [info_record ''/A/Run2022X/ALCARECO'' 100 10])
      else if text = dataset_query ''/B/Run2023Y/ALCARECO'' then
        Some (JArr [info_record ''/B/Run2023Y/ALCARECO'' 200 20])
      else if text = dataset_query ''/C/Commissioning/ALCARECO'' then
        Some (JArr [info_record ''/C/Commissioning/ALCARECO'' 5 1])
      else if text = dataset_query ''/D/Run2024Z/ALCARECO'' then
        Some (JArr [name_record ''/D/Run2024Z/ALCARECO''])
      else if text = dataset_query ''/E/Huge/ALCARECO'' then
        Some (JArr [info_record ''/E/Huge/ALCARECO'' 0 (2 ^ 1024)])
      else None)"

definition sample_world :: world where
  "sample_world = \<lparr>client = echo_client, json_loads = sample_catalog, py_str = (\<lambda>v. [])\<rparr>"

text \<open>The same catalog behind another rendering of values that are not strings.\<close>

definition other_world :: world where
  "other_world = sample_world\<lparr>py_str := (\<lambda>v. ''?'')\<rparr>"

text \<open>A client that exits with status 1 for every query, with a readable message on
  its error stream, and one whose error stream is the single byte 0xFF.\<close>

definition failing_world :: world where
  "failing_world =
     \<lparr>client = (\<lambda>argv. Some \<lparr>returncode = 1, stdout = [], stderr = ''boom''\<rparr>),
      json_loads = sample_catalog, py_str = (\<lambda>v. [])\<rparr>"

definition garbled_world :: world where
  "garbled_world =
     \<lparr>client = (\<lambda>argv. Some \<lparr>returncode = 1, stdout = [], stderr = [CHR 0xFF]\<rparr>),
      json_loads = sample_catalog, py_str = (\<lambda>v. [])\<rparr>"

definition sample_results :: results where
  "sample_results =
     \<lparr>total_datasets = 2, total_size = 300, total_events = 30,
      size_by_year = [(''2022'', 100), (''2023'', 200)],
      count_by_year = [(''2022'', 1), (''2023'', 1)]\<rparr>"

definition huge_results :: results where
  "huge_results =
     \<lparr>total_datasets = 1, total_size = 0, total_events = 2 ^ 1024,
      size_by_year = [], count_by_year = []\<rparr>"

section \<open>Basic facts\<close>

subsection \<open>Sequencing\<close>

lemma io_bind_return [simp]: "io_bind (io_return x) f = f x"
  by (simp add: io_bind_def io_return_def split: prod.splits)

lemma io_bind_raise [simp]: "io_bind (io_raise e) f = io_raise e"
  by (simp add: io_bind_def io_raise_def)

lemma io_bind_lift [simp]:
  "io_bind (io_lift v) f = (case v of Inl e \<Rightarrow> io_raise e | Inr x \<Rightarrow> f x)"
  by (simp add: io_bind_def io_lift_def io_raise_def split: sum.splits prod.splits)

lemma io_bind_print [simp]: "io_bind (io_print p) f = (p # fst (f ()), snd (f ()))"
  by (simp add: io_bind_def io_print_def split: prod.splits)

lemma snd_io_bind:
  "snd (io_bind m f) = (case snd m of Inl e \<Rightarrow> Inl e | Inr x \<Rightarrow> snd (f x))"
  by (cases m) (simp add: io_bind_def split: sum.splits prod.splits)

lemma fst_io_bind:
  "fst (io_bind m f) = (case snd m of Inl e \<Rightarrow> fst m | Inr x \<Rightarrow> fst m @ fst (f x))"
  by (cases m) (simp add: io_bind_def split: sum.splits prod.splits)

lemma io_return_parts [simp]: "snd (io_return x) = Inr x" "fst (io_return x) = []"
  by (simp_all add: io_return_def)

lemma io_raise_parts [simp]: "snd (io_raise e) = Inl e" "fst (io_raise e) = []"
  by (simp_all add: io_raise_def)

lemma io_print_parts [simp]: "fst (io_print p) = [p]" "snd (io_print p) = Inr ()"
  by (simp_all add: io_print_def)

lemma io_bind_cong_value:
  "(\<And>x. snd m = Inr x \<Longrightarrow> f x = g x) \<Longrightarrow> io_bind m f = io_bind m g"
  by (cases m) (auto simp: io_bind_def split: sum.splits)

subsection \<open>Strings\<close>

lemma startswith_iff: "startswith s p = (\<exists>post. s = p @ post)"
  by (induction s p rule: startswith.induct) auto

text \<open>\<open>str_contains\<close> is the substring test.\<close>

lemma str_contains_iff: "str_contains s sub = (\<exists>pre post. s = pre @ sub @ post)"
proof (induction s)
  case Nil
  then show ?case by auto
next
  case (Cons c cs)
  show ?case
  proof
    assume "str_contains (c # cs) sub"
    then consider "startswith (c # cs) sub" | "str_contains cs sub" by auto
    then show "\<exists>pre post. c # cs = pre @ sub @ post"
    proof cases
      case 1
      then obtain post where "c # cs = sub @ post" by (auto simp: startswith_iff)
      then have "c # cs = [] @ sub @ post" by simp
      then show ?thesis by blast
    next
      case 2
      with Cons.IH obtain pre post where "cs = pre @ sub @ post" by auto
      then have "c # cs = (c # pre) @ sub @ post" by simp
      then show ?thesis by blast
    qed
  next
    assume "\<exists>pre post. c # cs = pre @ sub @ post"
    then obtain pre post where e: "c # cs = pre @ sub @ post" by auto
    show "str_contains (c # cs) sub"
    proof (cases pre)
      case Nil
      with e have "startswith (c # cs) sub" by (auto simp: startswith_iff)
      then show ?thesis by simp
    next
      case (Cons a pre')
      with e have "cs = pre' @ sub @ post" by simp
      with Cons.IH show ?thesis by auto
    qed
  qed
qed

lemma year_of_str:
  "year_of (JStr name) =
     (if str_contains name ''Run2022'' then Some ''2022''
      else if str_contains name ''Run2023'' then Some ''2023''
      else if str_contains name ''Run2024'' then Some ''2024''
      else None)"
  by (simp add: year_of_def)

subsection \<open>What the walks can raise\<close>

lemma py_getitem_caught: "py_getitem v k = Inl e \<Longrightarrow> caught e"
  by (cases v) (auto simp: caught_def split: option.splits)

lemma py_iter_caught: "py_iter v = Inl e \<Longrightarrow> caught e"
  by (cases v) (auto simp: caught_def)

lemma append_names_caught: "append_names acc infos = Inl e \<Longrightarrow> caught e"
  by (induction infos arbitrary: acc) (auto split: sum.splits dest: py_getitem_caught)

lemma walk_entries_caught: "walk_entries acc entries = Inl e \<Longrightarrow> caught e"
  by (induction entries arbitrary: acc)
     (auto split: sum.splits dest: py_getitem_caught py_iter_caught append_names_caught)

lemma append_names_ok_any_acc:
  "append_names acc infos = Inr names \<Longrightarrow> \<exists>names'. append_names acc' infos = Inr names'"
  by (induction infos arbitrary: acc acc' names) (auto split: sum.splits)

lemma walk_entries_bad_record:
  "entry \<in> set entries \<Longrightarrow> record_names entry = Inl e \<Longrightarrow>
     \<exists>e'. walk_entries acc entries = Inl e'"
proof (induction entries arbitrary: acc)
  case Nil
  then show ?case by simp
next
  case (Cons x xs)
  show ?case
  proof (cases "x = entry")
    case True
    with Cons.prems(2) show ?thesis
      by (auto simp: record_names_def split: sum.splits
            dest: append_names_ok_any_acc[where acc' = "[]"])
  next
    case False
    with Cons show ?thesis by (auto split: sum.splits)
  qed
qed

lemma py_getitem_name_ok: "(\<exists>n. py_getitem i ''name'' = Inr n) = has_name i"
  by (cases i) (auto simp: has_name_def split: option.splits)

lemma append_names_ok_iff:
  "(\<exists>names. append_names acc infos = Inr names) = list_all has_name infos"
proof (induction infos arbitrary: acc)
  case Nil
  then show ?case by simp
next
  case (Cons i infos)
  show ?case
  proof (cases "py_getitem i ''name''")
    case (Inl e)
    with py_getitem_name_ok[of i] show ?thesis by auto
  next
    case (Inr n)
    with py_getitem_name_ok[of i] Cons.IH[of "acc @ [n]"] show ?thesis by auto
  qed
qed

text \<open>Walking a record alone succeeds exactly when the record has the expected shape.\<close>

lemma record_names_ok_iff: "(\<exists>names. record_names entry = Inr names) = record_ok entry"
proof (cases entry)
  case (JObj kvs)
  show ?thesis
  proof (cases "map_of kvs ''dataset''")
    case None
    with JObj show ?thesis by (simp add: record_names_def record_ok_def)
  next
    case (Some v)
    show ?thesis
    proof (cases "py_iter v")
      case (Inl e)
      with JObj Some show ?thesis by (simp add: record_names_def record_ok_def)
    next
      case (Inr infos)
      with JObj Some append_names_ok_iff[of "[]" infos] show ?thesis
        by (auto simp: record_names_def record_ok_def split: sum.splits)
    qed
  qed
qed (simp_all add: record_names_def record_ok_def)

lemma record_not_ok: "\<not> record_ok entry \<Longrightarrow> \<exists>e. record_names entry = Inl e"
  using record_names_ok_iff[of entry] by (cases "record_names entry") auto

text \<open>A result that is not empty and cannot be iterated (a number, \<^verbatim>\<open>True\<close>) empties
  the listing as well.\<close>

lemma datasets_of_data_not_iterable:
  "truthy data \<Longrightarrow> py_iter data = Inl e \<Longrightarrow> snd (datasets_of_data pattern data) = Inr []"
  by (auto simp: datasets_of_data_def dest: py_iter_caught)

text \<open>The lister itself never raises: only the adapter's exceptions pass through it.\<close>

lemma datasets_of_data_returns: "\<exists>names. snd (datasets_of_data pattern data) = Inr names"
  by (auto simp: datasets_of_data_def split: sum.splits dest: py_iter_caught walk_entries_caught)

subsection \<open>The fetcher's walk\<close>

lemma info_of_data_no_match:
  "truthy data \<Longrightarrow> py_iter data = Inr entries \<Longrightarrow> scan_entries entries = Inr None \<Longrightarrow>
     info_of_data data = ([], Inr ReturnedNone)"
  by (simp add: info_of_data_def io_return_def)

lemma scan_entries_skip:
  "scan_entries pre = Inr None \<Longrightarrow> scan_entries (pre @ rest) = scan_entries rest"
  by (induction pre) (auto split: sum.splits option.splits)

lemma scan_entries_stop:
  "scan_entries [entry] = Inr (Some found) \<Longrightarrow> scan_entries (entry # rest) = Inr (Some found)"
  by (auto split: sum.splits option.splits)

text \<open>The first record with both fields decides the result, whatever follows it.\<close>

lemma info_of_data_first_match:
  assumes "scan_entries pre = Inr None" "scan_entries [entry] = Inr (Some (sz, ev))"
  shows "info_of_data (JArr (pre @ entry # rest)) = ([], Inr (ReturnedPair sz ev))"
  using scan_entries_skip[OF assms(1), of "entry # rest"] scan_entries_stop[OF assms(2), of rest]
  by (simp add: info_of_data_def io_return_def)

subsection \<open>The adapter\<close>

lemma get_das_data_nonzero_exit:
  assumes "client W [''dasgoclient'', ''--query'', query, ''--json''] = Some p"
    and "returncode p \<noteq> 0"
  shows "get_das_data W query =
     (if utf8_valid (stderr p)
      then ([Line (''Error executing dasgoclient: '' @ stderr p)], Inr JNull)
      else ([], Inl UnicodeDecodeError))"
  using assms
  by (simp add: get_das_data_def subprocess_run_def decode_utf8_def io_return_def io_raise_def)

lemma get_das_data_not_json:
  assumes "client W [''dasgoclient'', ''--query'', query, ''--json''] = Some p"
    and "returncode p = 0"
    and "decode_utf8 (stdout p) = Inr text"
    and "json_loads W text = None"
  shows "get_das_data W query = ([], Inl JSONDecodeError)"
  using assms by (simp add: get_das_data_def subprocess_run_def io_raise_def)

text \<open>Output that is not even UTF-8 leaves the adapter as a \<^verbatim>\<open>UnicodeDecodeError\<close>.\<close>

lemma get_das_data_not_utf8:
  assumes "client W [''dasgoclient'', ''--query'', query, ''--json''] = Some p"
    and "returncode p = 0"
    and "\<not> utf8_valid (stdout p)"
  shows "get_das_data W query = ([], Inl UnicodeDecodeError)"
  using assms by (simp add: get_das_data_def subprocess_run_def decode_utf8_def io_raise_def)

lemma get_datasets_no_data:
  assumes "get_das_data W (dataset_query pattern) = (out, Inr JNull)"
  shows "get_datasets W pattern =
     (Line (''Executing query: '' @ dataset_query pattern) # out @
      [Line (''No data found for pattern '' @ pattern)], Inr [])"
  using assms
  by (simp add: get_datasets_def datasets_of_data_def io_bind_def io_return_def io_print_def)

subsection \<open>Counting one dataset\<close>

lemma dd_get_dd_set: "dd_get (dd_set d k v) k' = (if k' = k then v else dd_get d k')"
  by (induction d) (auto simp: dd_get_def)

lemma map_of_dd_set: "map_of (dd_set d k v) k' = (if k' = k then Some v else map_of d k')"
  by (induction d) auto

lemma sum_dd_set: "sum_list (map snd (dd_set d k v)) = sum_list (map snd d) - dd_get d k + v"
  by (induction d) (auto simp: dd_get_def)

lemma int_add_shift: "int_add 0 v = Inr n \<Longrightarrow> int_add a v = Inr (a + n)"
  by (cases v) auto

lemma int_add_value: "int_add a v = Inr s \<Longrightarrow> \<exists>n. int_add 0 v = Inr n \<and> s = a + n"
  by (cases v) auto

text \<open>A dataset whose size and event count can be added is counted, and the result is
  the one the specification describes.\<close>

lemma count_dataset_counted:
  assumes "int_add 0 sz = Inr n" and "int_add 0 ev = Inr m"
    and "\<forall>k e. py_in k dataset \<noteq> Inl e"
  shows "count_dataset r dataset sz ev = Inr (counted_into r n m (year_of dataset))"
proof -
  from assms(1,2) have nn: "sz \<noteq> JNull" "ev \<noteq> JNull" by auto
  obtain b1 b2 b3 where b: "py_in ''Run2022'' dataset = Inr b1"
     "py_in ''Run2023'' dataset = Inr b2" "py_in ''Run2024'' dataset = Inr b3"
    using assms(3) by (meson sum.exhaust)
  show ?thesis
    using nn b int_add_shift[OF assms(1)] int_add_shift[OF assms(2)]
    by (simp add: count_dataset_def counted_into_def year_of_def add_to_year_def Let_def
          split: bool.splits)
qed

lemma count_dataset_Inr:
  assumes "count_dataset r dataset sz ev = Inr r'"
  shows "(if sz \<noteq> JNull \<and> ev \<noteq> JNull
          then \<exists>n m. int_add 0 sz = Inr n \<and> int_add 0 ev = Inr m \<and>
                 r' = counted_into r n m (year_of dataset)
          else r' = r)"
proof (cases "sz \<noteq> JNull \<and> ev \<noteq> JNull")
  case False
  with assms show ?thesis by (auto simp: count_dataset_def)
next
  case True
  from assms True obtain ts te where t: "int_add (total_size r) sz = Inr ts"
      "int_add (total_events r) ev = Inr te"
    by (auto simp: count_dataset_def split: sum.splits)
  from int_add_value[OF t(1)] int_add_value[OF t(2)]
  obtain n m where nm: "int_add 0 sz = Inr n" "int_add 0 ev = Inr m" by auto
  have "\<forall>k e. py_in k dataset \<noteq> Inl e"
    using assms True t by (cases dataset) (auto simp: count_dataset_def Let_def)
  from count_dataset_counted[OF nm this, of r] assms True nm show ?thesis by auto
qed

subsection \<open>The loops as a fold\<close>

lemma fold_datasets_Inr_Cons:
  assumes "snd (fold_datasets fetch r (d # ds)) = Inr r'"
  obtains sz ev r1 where "snd (fetch d) = Inr (ReturnedPair sz ev)"
    "count_dataset r d sz ev = Inr r1" "snd (fold_datasets fetch r1 ds) = Inr r'"
proof -
  from assms obtain info where i: "snd (fetch d) = Inr info"
    by (auto simp: snd_io_bind split: sum.splits)
  with assms obtain sz ev where u: "unpack_pair info = Inr (sz, ev)"
    by (auto simp: snd_io_bind split: sum.splits)
  with i assms obtain r1 where c: "count_dataset r d sz ev = Inr r1"
    by (auto simp: snd_io_bind split: sum.splits)
  from u have "info = ReturnedPair sz ev"
    by (auto simp: unpack_pair_def split: returned.splits)
  with i u c assms that show thesis
    by (simp add: snd_io_bind)
qed

lemma tally_step:
  assumes "snd (fetch d) = Inr (ReturnedPair sz ev)" "count_dataset r d sz ev = Inr r1"
  shows "r1 = tally fetch r d"
  using count_dataset_Inr[OF assms(2)] assms(1)
  by (auto simp: tally_def counted_def int_of_def split: if_splits)

lemma fold_datasets_Inr:
  "snd (fold_datasets fetch r ds) = Inr r' \<Longrightarrow> r' = foldl (tally fetch) r ds"
proof (induction ds arbitrary: r)
  case Nil
  then show ?case by simp
next
  case (Cons d ds)
  from Cons.prems obtain sz ev r1 where s: "snd (fetch d) = Inr (ReturnedPair sz ev)"
    "count_dataset r d sz ev = Inr r1" "snd (fold_datasets fetch r1 ds) = Inr r'"
    by (rule fold_datasets_Inr_Cons)
  have "r1 = tally fetch r d"
    using s(1) s(2) by (rule tally_step)
  with Cons.IH[OF s(3)] show ?case by simp
qed

lemma fold_patterns_Inr:
  "snd (fold_patterns list fetch r ps) = Inr r' \<Longrightarrow>
     r' = foldl (tally fetch) r (listed list ps)"
proof (induction ps arbitrary: r)
  case Nil
  then show ?case by (simp add: listed_def)
next
  case (Cons p ps)
  from Cons.prems obtain ds where l: "snd (list p) = Inr ds"
    by (auto simp: snd_io_bind split: sum.splits)
  with Cons.prems obtain r1 where f: "snd (fold_datasets fetch r ds) = Inr r1"
    by (auto simp: snd_io_bind split: sum.splits)
  with l Cons.prems have "snd (fold_patterns list fetch r1 ps) = Inr r'"
    by (simp add: snd_io_bind)
  from Cons.IH[OF this] fold_datasets_Inr[OF f] l show ?case
    by (simp add: listed_def)
qed

lemma fold_patterns_empty_listings:
  "\<forall>p \<in> set patterns. snd (list p) = Inr [] \<Longrightarrow>
     snd (fold_patterns list fetch r patterns) = Inr r"
  by (induction patterns) (auto simp: snd_io_bind)

lemma gap_counted_into: "gap (counted_into r n m y) = gap r + (if y = None then 1 else 0)"
  by (cases y) (simp_all add: gap_def counted_into_def sum_dd_set)

lemma gap_tally:
  "gap (tally fetch r d) = gap r + (if counted fetch d \<and> year_of d = None then 1 else 0)"
  by (auto simp: tally_def gap_counted_into counted_def split: sum.splits returned.splits)

lemma gap_foldl:
  "gap (foldl (tally fetch) r ds) =
     gap r + int (length (filter (\<lambda>d. year_of d = None) (filter (counted fetch) ds)))"
  by (induction ds arbitrary: r) (simp_all add: gap_tally)

lemma key_counted_into:
  "map_of (count_by_year (counted_into r n m y)) k =
     (if y = Some k then Some (dd_get (count_by_year r) k + 1) else map_of (count_by_year r) k)"
  "map_of (size_by_year (counted_into r n m y)) k =
     (if y = Some k then Some (dd_get (size_by_year r) k + n) else map_of (size_by_year r) k)"
  by (cases y; simp add: counted_into_def map_of_dd_set)+

lemma absent_key_foldl:
  assumes "\<forall>d \<in> set ds. counted fetch d \<longrightarrow> year_of d \<noteq> Some k"
  shows "map_of (count_by_year (foldl (tally fetch) r ds)) k = map_of (count_by_year r) k \<and>
         map_of (size_by_year (foldl (tally fetch) r ds)) k = map_of (size_by_year r) k"
  using assms
proof (induction ds arbitrary: r)
  case Nil
  then show ?case by simp
next
  case (Cons d ds)
  have "map_of (count_by_year (tally fetch r d)) k = map_of (count_by_year r) k \<and>
        map_of (size_by_year (tally fetch r d)) k = map_of (size_by_year r) k"
    using Cons.prems
    by (auto simp: tally_def key_counted_into split: sum.splits returned.splits)
  with Cons.IH[of "tally fetch r d"] Cons.prems show ?case by simp
qed

lemma fold_datasets_cong:
  "\<forall>d \<in> set ds. fetch1 d = fetch2 d \<Longrightarrow>
     fold_datasets fetch1 r ds = fold_datasets fetch2 r ds"
  by (induction ds arbitrary: r) (auto intro!: io_bind_cong_value split: sum.splits)

lemma fold_patterns_cong:
  assumes "\<forall>p \<in> set ps. list1 p = list2 p"
    and "\<forall>d \<in> set (listed list1 ps). fetch1 d = fetch2 d"
  shows "fold_patterns list1 fetch1 r ps = fold_patterns list2 fetch2 r ps"
  using assms
proof (induction ps arbitrary: r)
  case Nil
  then show ?case by simp
next
  case (Cons p ps)
  have l: "list1 p = list2 p" using Cons.prems(1) by simp
  have tl: "\<forall>d \<in> set (listed list1 ps). fetch1 d = fetch2 d"
    using Cons.prems(2) by (simp add: listed_def)
  have "\<And>ds. snd (list2 p) = Inr ds \<Longrightarrow>
     fold_datasets fetch1 r ds = fold_datasets fetch2 r ds"
    using Cons.prems(2) l by (intro fold_datasets_cong) (simp add: listed_def)
  moreover have "\<And>r'. fold_patterns list1 fetch1 r' ps = fold_patterns list2 fetch2 r' ps"
    using Cons.IH Cons.prems(1) tl by simp
  ultimately have "\<And>ds. snd (list2 p) = Inr ds \<Longrightarrow>
     io_bind (fold_datasets fetch1 r ds) (\<lambda>r'. fold_patterns list1 fetch1 r' ps) =
     io_bind (fold_datasets fetch2 r ds) (\<lambda>r'. fold_patterns list2 fetch2 r' ps)"
    by simp
  then have "io_bind (list2 p) (\<lambda>ds.
       io_bind (fold_datasets fetch1 r ds) (\<lambda>r'. fold_patterns list1 fetch1 r' ps)) =
     io_bind (list2 p) (\<lambda>ds.
       io_bind (fold_datasets fetch2 r ds) (\<lambda>r'. fold_patterns list2 fetch2 r' ps))"
    by (rule io_bind_cong_value)
  then show ?case
    by (simp add: l)
qed

subsection \<open>Floats\<close>

lemma round_half_even_ge_floor: "\<lfloor>q\<rfloor> \<le> round_half_even q"
  by (simp add: round_half_even_def Let_def)

lemma bitlen_one: "bitlen 1 = 1"
  by (simp add: bitlen_alt_def)

lemma binade_of_int_le: "0 < n \<Longrightarrow> binade (of_int n) \<le> bitlen n - 1"
proof -
  assume "0 < n"
  then have "\<bar>of_int n :: rat\<bar> = of_int n" by simp
  then show ?thesis
    by (simp add: binade_def Let_def bitlen_one del: of_int_abs)
qed

lemma two_powi_bitlen_le:
  assumes "0 < n"
  shows "(2::rat) powi (bitlen n - 1) \<le> of_int n"
proof -
  from assms have b: "1 \<le> bitlen n" by (simp add: bitlen_alt_def)
  from bitlen_bounds[OF assms] have "2 ^ nat (bitlen n - 1) \<le> n" ..
  then have "(of_int (2 ^ nat (bitlen n - 1)) :: rat) \<le> of_int n"
    by (simp only: of_int_le_iff)
  moreover have "(2::rat) powi (bitlen n - 1) = 2 ^ nat (bitlen n - 1)"
    using b by (simp add: power_int_def)
  ultimately show ?thesis by simp
qed

text \<open>A positive integer never becomes the float zero, so the guard \<open>total > 0\<close> is
  enough to keep the divisor away from zero.\<close>

lemma round_double_of_int_pos:
  assumes "0 < n"
  shows "0 < round_double (of_int n)"
proof -
  let ?q = "of_int n :: rat"
  let ?ulp = "(2::rat) powi (max (binade ?q) (- 1022) - 52)"
  have e0: "0 \<le> bitlen n - 1" using assms by (simp add: bitlen_def floorlog_def)
  have "max (binade ?q) (- 1022) - 52 \<le> bitlen n - 1"
    using binade_of_int_le[OF assms] e0 by simp
  then have "?ulp \<le> 2 powi (bitlen n - 1)"
    by (intro power_int_increasing) simp_all
  also have "\<dots> \<le> ?q" using assms by (rule two_powi_bitlen_le)
  finally have u: "?ulp \<le> ?q" .
  have up: "0 < ?ulp" by (simp add: zero_less_power_int)
  from u up have "1 \<le> ?q / ?ulp" by (simp add: field_simps)
  then have "1 \<le> \<lfloor>?q / ?ulp\<rfloor>" by simp
  with round_half_even_ge_floor[of "?q / ?ulp"] have "1 \<le> round_half_even (?q / ?ulp)"
    by linarith
  then have "0 < (of_int (round_half_even (?q / ?ulp)) :: rat)" by simp
  with up have "0 < of_int (round_half_even (?q / ?ulp)) * ?ulp" by simp
  moreover have "?q \<noteq> 0" using assms by simp
  ultimately show ?thesis by (simp add: round_double_def Let_def)
qed

lemma float_truediv_int_pos:
  "0 < n \<Longrightarrow> float_truediv_int x n =
     (if dbl_overflows (of_int n) then Inl OverflowError
      else Inr (round_double (x / round_double (of_int n))))"
  using round_double_of_int_pos[of n] by (simp add: float_truediv_int_def float_of_int_def)

lemma average_size_cases:
  "average_size x n =
     (if 0 < n then
        (if dbl_overflows (of_int n) then Inl OverflowError
         else Inr (PyFloat (round_double (x / round_double (of_int n)))))
      else Inr (PyInt 0))"
  by (simp add: average_size_def float_truediv_int_pos)

lemma total_size_tb_cases:
  "total_size_tb r =
     (if dbl_overflows (of_int (total_size r) / 1024 ^ 4) then Inl OverflowError
      else Inr (round_double (of_int (total_size r) / 1024 ^ 4)))"
  by (simp add: total_size_tb_def int_truediv_def)

lemma digits_0: "digits 0 = ''0''"
  by (simp add: digits.simps)

lemma str_of_int_0: "str_of_int 0 = ''0''"
  by (simp add: str_of_int_def digits_0)

lemma format_fixed_2_0: "format_fixed 2 0 = ''0.00''"
  by (simp add: format_fixed_def fixed_digits_def round_half_even_def digits_0)

lemma int_truediv_0: "b \<noteq> 0 \<Longrightarrow> int_truediv 0 b = Inr 0"
  by (simp add: int_truediv_def dbl_overflows_def round_double_def)

subsection \<open>The report\<close>

lemma report_year_absent:
  assumes "map_of (count_by_year r) year = None" "map_of (size_by_year r) year = None"
  shows "report_year r year =
     ([Line (''Total number of datasets in '' @ year @ '': 0''),
       Line (''Total size of datasets in '' @ year @ '': 0.00 TB'')], Inr ())"
  using assms
  by (simp add: report_year_def dd_get_def str_of_int_0 int_truediv_0 format_fixed_2_0)

lemma report_years_lines:
  "snd (report_years r years) = Inr () \<Longrightarrow> year \<in> set years \<Longrightarrow>
     set (fst (report_year r year)) \<subseteq> set (fst (report_years r years))"
  by (induction years) (auto simp: snd_io_bind fst_io_bind split: sum.splits)

lemma report_group_lines:
  assumes "snd (report_group group_name r) = Inr ()"
  shows "snd (report_years r [''2022'', ''2023'', ''2024'']) = Inr () \<and>
    set (fst (report_years r [''2022'', ''2023'', ''2024''])) \<subseteq>
      set (fst (report_group group_name r))"
proof -
  from assms obtain a b c where av: "averages r = Inr (a, b, c)"
    by (cases "averages r") (auto simp: report_group_def io_raise_def)
  show ?thesis
    using assms unfolding report_group_def av
    by (auto simp add: snd_io_bind fst_io_bind split: sum.splits)
qed

subsection \<open>The sample catalog\<close>

lemma sample_listing:
  "snd (get_datasets sample_world ''/*/Run202*-Sample-PromptReco*/ALCARECO'') =
     Inr [JStr ''/A/Run2022X/ALCARECO'', JStr ''/B/Run2023Y/ALCARECO'']"
  by (simp add: get_datasets_def snd_io_bind get_das_data_def subprocess_run_def
        sample_world_def echo_client_def decode_utf8_def byte_in_def dataset_query_def
        sample_catalog_def datasets_of_data_def name_record_def)

lemma commissioning_listing:
  "snd (get_datasets sample_world ''/*/Commissioning*/ALCARECO'') =
     Inr [JStr ''/C/Commissioning/ALCARECO'']"
  by (simp add: get_datasets_def snd_io_bind get_das_data_def subprocess_run_def
        sample_world_def echo_client_def decode_utf8_def byte_in_def dataset_query_def
        sample_catalog_def datasets_of_data_def name_record_def)

lemma bare_listing:
  "snd (get_datasets sample_world ''/*/Run202*-Bare*/ALCARECO'') =
     Inr [JStr ''/D/Run2024Z/ALCARECO'']"
  by (simp add: get_datasets_def snd_io_bind get_das_data_def subprocess_run_def
        sample_world_def echo_client_def decode_utf8_def byte_in_def dataset_query_def
        sample_catalog_def datasets_of_data_def name_record_def)

lemma huge_listing:
  "snd (get_datasets sample_world ''/*/Run202*-Huge*/ALCARECO'') = Inr [JStr ''/E/Huge/ALCARECO'']"
  by (simp add: get_datasets_def snd_io_bind get_das_data_def subprocess_run_def
        sample_world_def echo_client_def decode_utf8_def byte_in_def dataset_query_def
        sample_catalog_def datasets_of_data_def name_record_def)

lemma sample_info_A:
  "snd (get_dataset_info sample_world (JStr ''/A/Run2022X/ALCARECO'')) =
     Inr (ReturnedPair (JInt 100) (JInt 10))"
  by (simp add: get_dataset_info_def format_value_def snd_io_bind get_das_data_def
        subprocess_run_def sample_world_def echo_client_def decode_utf8_def byte_in_def
        dataset_query_def sample_catalog_def info_of_data_def info_record_def)

lemma sample_info_B:
  "snd (get_dataset_info sample_world (JStr ''/B/Run2023Y/ALCARECO'')) =
     Inr (ReturnedPair (JInt 200) (JInt 20))"
  by (simp add: get_dataset_info_def format_value_def snd_io_bind get_das_data_def
        subprocess_run_def sample_world_def echo_client_def decode_utf8_def byte_in_def
        dataset_query_def sample_catalog_def info_of_data_def info_record_def)

lemma sample_info_C:
  "snd (get_dataset_info sample_world (JStr ''/C/Commissioning/ALCARECO'')) =
     Inr (ReturnedPair (JInt 5) (JInt 1))"
  by (simp add: get_dataset_info_def format_value_def snd_io_bind get_das_data_def
        subprocess_run_def sample_world_def echo_client_def decode_utf8_def byte_in_def
        dataset_query_def sample_catalog_def info_of_data_def info_record_def)

lemma sample_info_D:
  "get_dataset_info sample_world (JStr ''/D/Run2024Z/ALCARECO'') = ([], Inr ReturnedNone)"
  by (simp add: get_dataset_info_def format_value_def get_das_data_def
        subprocess_run_def sample_world_def echo_client_def decode_utf8_def byte_in_def
        dataset_query_def sample_catalog_def info_of_data_def name_record_def io_return_def
        io_bind_def)

lemma sample_info_E:
  "snd (get_dataset_info sample_world (JStr ''/E/Huge/ALCARECO'')) =
     Inr (ReturnedPair (JInt 0) (JInt (2 ^ 1024)))"
  by (simp add: get_dataset_info_def format_value_def snd_io_bind get_das_data_def
        subprocess_run_def sample_world_def echo_client_def decode_utf8_def byte_in_def
        dataset_query_def sample_catalog_def info_of_data_def info_record_def)

lemma sample_run:
  "snd (process_datasets sample_world ''Sample'' [''/*/Run202*-Sample-PromptReco*/ALCARECO'']) =
     Inr sample_results"
  by (simp add: process_datasets_def aggregate_def snd_io_bind unpack_pair_def
        sample_listing sample_info_A sample_info_B count_dataset_def add_to_year_def
        new_results_def dd_get_def sample_results_def)

lemma sample_listed:
  "listed (get_datasets sample_world) [''/*/Run202*-Sample-PromptReco*/ALCARECO''] =
     [JStr ''/A/Run2022X/ALCARECO'', JStr ''/B/Run2023Y/ALCARECO'']"
  by (simp add: listed_def sample_listing)

lemma sample_two_patterns:
  "snd (process_datasets sample_world ''Sample''
          [''/*/Run202*-Sample-PromptReco*/ALCARECO'', ''/*/Commissioning*/ALCARECO'']) =
     Inr \<lparr>total_datasets = 3, total_size = 305, total_events = 31,
          size_by_year = [(''2022'', 100), (''2023'', 200)],
          count_by_year = [(''2022'', 1), (''2023'', 1)]\<rparr>"
  by (simp add: process_datasets_def aggregate_def snd_io_bind unpack_pair_def
        sample_listing commissioning_listing sample_info_A sample_info_B sample_info_C
        count_dataset_def add_to_year_def new_results_def dd_get_def)

lemma broken_data:
  "snd (get_das_data sample_world (dataset_query ''/*/Run202*-Broken*/ALCARECO'')) =
     Inr (JArr [name_record ''/A/Run2022X/ALCARECO'', JObj [(''das'', JNull)]])"
  by (simp add: get_das_data_def subprocess_run_def sample_world_def echo_client_def
        decode_utf8_def byte_in_def dataset_query_def sample_catalog_def)

lemma huge_run:
  "snd (process_datasets sample_world ''Huge'' [''/*/Run202*-Huge*/ALCARECO'']) = Inr huge_results"
  by (simp add: process_datasets_def aggregate_def snd_io_bind unpack_pair_def
        huge_listing sample_info_E count_dataset_def new_results_def huge_results_def)

lemma huge_averages: "averages huge_results = Inl OverflowError"
  by (simp add: averages_def average_size_cases total_size_tb_cases dbl_overflows_def
        round_double_def huge_results_def)

lemma sample_report_returns: "snd (report_group ''Sample'' sample_results) = Inr ()"
  by (simp add: report_group_def averages_def average_size_cases total_size_tb_cases
        snd_io_bind report_year_def int_truediv_def dbl_overflows_def format_number_def
        sample_results_def dd_get_def)

lemma get_das_data_py_str: "get_das_data (W\<lparr>py_str := f\<rparr>) query = get_das_data W query"
  by (simp add: get_das_data_def subprocess_run_def cong: sum.case_cong option.case_cong)

lemma other_listing:
  "get_datasets other_world ''/*/Run202*-Sample-PromptReco*/ALCARECO'' =
   get_datasets sample_world ''/*/Run202*-Sample-PromptReco*/ALCARECO''"
  by (simp add: get_datasets_def other_world_def get_das_data_py_str)

lemma other_info:
  "get_dataset_info other_world (JStr name) = get_dataset_info sample_world (JStr name)"
  by (simp add: get_dataset_info_def other_world_def get_das_data_py_str format_value_def)

section \<open>The claims\<close>

text \<open>
  C1. The claim: when the adapter's result is not empty and no dataset entry in it has
  both a \<^verbatim>\<open>size\<close> and an \<^verbatim>\<open>nevents\<close> field, \<^verbatim>\<open>get_dataset_info\<close> returns the pair
  \<^verbatim>\<open>(None, None)\<close>. The code does not: both loops end, no \<^verbatim>\<open>return\<close> statement is
  left, and the call yields \<^verbatim>\<open>None\<close>. For the dataset \<^verbatim>\<open>/D/Run2024Z/ALCARECO\<close> of the
  sample catalog, whose record has a name only, the fetcher returns \<^verbatim>\<open>None\<close>, and the
  aggregator, which unpacks the result into two variables at line 78, raises a
  \<^verbatim>\<open>TypeError\<close> that ends \<^verbatim>\<open>process_datasets\<close>.
\<close>

theorem get_dataset_info_without_match:
  "get_dataset_info sample_world (JStr ''/D/Run2024Z/ALCARECO'') = ([], Inr ReturnedNone) \<and>
   snd (process_datasets sample_world ''Bare'' [''/*/Run202*-Bare*/ALCARECO'']) = Inl TypeError"
  by (simp add: sample_info_D process_datasets_def aggregate_def snd_io_bind bare_listing
        unpack_pair_def)

text \<open>
  C2. Scenario A: one group with one pattern; the lister yields
  \<^verbatim>\<open>/A/Run2022X/ALCARECO\<close> and \<^verbatim>\<open>/B/Run2023Y/ALCARECO\<close>, the fetcher yields
  \<^verbatim>\<open>(100, 10)\<close> and \<^verbatim>\<open>(200, 20)\<close>. Then \<^verbatim>\<open>process_datasets\<close> returns 2 datasets,
  300 bytes, 30 events, one dataset and 100 bytes for 2022, one dataset and 200 bytes
  for 2023.
\<close>

theorem scenario_A:
  assumes "snd (get_datasets W pattern) =
             Inr [JStr ''/A/Run2022X/ALCARECO'', JStr ''/B/Run2023Y/ALCARECO'']"
    and "snd (get_dataset_info W (JStr ''/A/Run2022X/ALCARECO'')) =
           Inr (ReturnedPair (JInt 100) (JInt 10))"
    and "snd (get_dataset_info W (JStr ''/B/Run2023Y/ALCARECO'')) =
           Inr (ReturnedPair (JInt 200) (JInt 20))"
  shows "snd (process_datasets W group_name [pattern]) =
     Inr \<lparr>total_datasets = 2, total_size = 300, total_events = 30,
          size_by_year = [(''2022'', 100), (''2023'', 200)],
          count_by_year = [(''2022'', 1), (''2023'', 1)]\<rparr>"
  using assms
  by (simp add: process_datasets_def aggregate_def snd_io_bind unpack_pair_def
        count_dataset_def add_to_year_def new_results_def dd_get_def)

theorem scenario_A_witness:
  "snd (get_datasets sample_world ''/*/Run202*-Sample-PromptReco*/ALCARECO'') =
     Inr [JStr ''/A/Run2022X/ALCARECO'', JStr ''/B/Run2023Y/ALCARECO''] \<and>
   snd (get_dataset_info sample_world (JStr ''/A/Run2022X/ALCARECO'')) =
     Inr (ReturnedPair (JInt 100) (JInt 10)) \<and>
   snd (get_dataset_info sample_world (JStr ''/B/Run2023Y/ALCARECO'')) =
     Inr (ReturnedPair (JInt 200) (JInt 20)) \<and>
   snd (process_datasets sample_world ''Sample'' [''/*/Run202*-Sample-PromptReco*/ALCARECO'']) =
     Inr \<lparr>total_datasets = 2, total_size = 300, total_events = 30,
          size_by_year = [(''2022'', 100), (''2023'', 200)],
          count_by_year = [(''2022'', 1), (''2023'', 1)]\<rparr>"
  using scenario_A [OF sample_listing sample_info_A sample_info_B, of "''Sample''"]
    sample_listing sample_info_A sample_info_B
  by simp

text \<open>
  C3. Whenever \<^verbatim>\<open>process_datasets\<close> returns, \<^verbatim>\<open>total_datasets\<close> is the sum of the
  values of \<^verbatim>\<open>count_by_year\<close> plus the number of counted datasets, among those
  listed, whose name contains none of the three year tokens. Counting such a dataset
  adds it to the three totals and leaves both year dictionaries as they were.
\<close>

theorem total_datasets_invariant:
  "(snd (process_datasets W group_name patterns) = Inr r \<longrightarrow>
      total_datasets r =
        sum_list (map snd (count_by_year r)) +
        int (length (filter (\<lambda>d. year_of d = None)
               (filter (counted (get_dataset_info W)) (listed (get_datasets W) patterns))))) \<and>
   (sz \<noteq> JNull \<and> ev \<noteq> JNull \<and> year_of dataset = None \<and>
    count_dataset r0 dataset sz ev = Inr r1 \<longrightarrow>
      total_datasets r1 = total_datasets r0 + 1 \<and>
      total_size r1 = total_size r0 + int_of sz \<and>
      total_events r1 = total_events r0 + int_of ev \<and>
      size_by_year r1 = size_by_year r0 \<and> count_by_year r1 = count_by_year r0)"
proof (rule conjI; rule impI)
  assume "snd (process_datasets W group_name patterns) = Inr r"
  then have "r = foldl (tally (get_dataset_info W)) new_results (listed (get_datasets W) patterns)"
    by (simp add: process_datasets_def aggregate_def fold_patterns_Inr)
  then have "gap r = gap new_results +
      int (length (filter (\<lambda>d. year_of d = None)
             (filter (counted (get_dataset_info W)) (listed (get_datasets W) patterns))))"
    by (simp only: gap_foldl)
  then show "total_datasets r =
        sum_list (map snd (count_by_year r)) +
        int (length (filter (\<lambda>d. year_of d = None)
               (filter (counted (get_dataset_info W)) (listed (get_datasets W) patterns))))"
    by (simp add: gap_def new_results_def)
next
  assume a: "sz \<noteq> JNull \<and> ev \<noteq> JNull \<and> year_of dataset = None \<and>
    count_dataset r0 dataset sz ev = Inr r1"
  then have "count_dataset r0 dataset sz ev = Inr r1" by simp
  from count_dataset_Inr[OF this] a
  obtain n m where "int_add 0 sz = Inr n" "int_add 0 ev = Inr m"
    "r1 = counted_into r0 n m None"
    by auto
  then show "total_datasets r1 = total_datasets r0 + 1 \<and>
      total_size r1 = total_size r0 + int_of sz \<and>
      total_events r1 = total_events r0 + int_of ev \<and>
      size_by_year r1 = size_by_year r0 \<and> count_by_year r1 = count_by_year r0"
    by (simp add: counted_into_def int_of_def)
qed

theorem total_datasets_invariant_witness:
  "snd (process_datasets sample_world ''Sample''
          [''/*/Run202*-Sample-PromptReco*/ALCARECO'', ''/*/Commissioning*/ALCARECO'']) =
     Inr \<lparr>total_datasets = 3, total_size = 305, total_events = 31,
          size_by_year = [(''2022'', 100), (''2023'', 200)],
          count_by_year = [(''2022'', 1), (''2023'', 1)]\<rparr> \<and>
   length (filter (\<lambda>d. year_of d = None)
     (filter (counted (get_dataset_info sample_world))
        (listed (get_datasets sample_world)
           [''/*/Run202*-Sample-PromptReco*/ALCARECO'', ''/*/Commissioning*/ALCARECO'']))) = 1 \<and>
   (3::int) = sum_list (map snd [(''2022'', 1::int), (''2023'', 1)]) + 1 \<and>
   year_of (JStr ''/C/Commissioning/ALCARECO'') = None \<and>
   count_dataset sample_results (JStr ''/C/Commissioning/ALCARECO'') (JInt 5) (JInt 1) =
     Inr (sample_results\<lparr>total_datasets := 3, total_size := 305, total_events := 31\<rparr>)"
proof -
  have l: "listed (get_datasets sample_world)
           [''/*/Run202*-Sample-PromptReco*/ALCARECO'', ''/*/Commissioning*/ALCARECO''] =
        [JStr ''/A/Run2022X/ALCARECO'', JStr ''/B/Run2023Y/ALCARECO'',
         JStr ''/C/Commissioning/ALCARECO'']"
    by (simp add: listed_def sample_listing commissioning_listing)
  have c: "length (filter (\<lambda>d. year_of d = None)
     (filter (counted (get_dataset_info sample_world))
        (listed (get_datasets sample_world)
           [''/*/Run202*-Sample-PromptReco*/ALCARECO'', ''/*/Commissioning*/ALCARECO'']))) = 1"
    by (simp add: l counted_def sample_info_A sample_info_B sample_info_C year_of_str)
  have s: "count_dataset sample_results (JStr ''/C/Commissioning/ALCARECO'') (JInt 5) (JInt 1) =
     Inr (sample_results\<lparr>total_datasets := 3, total_size := 305, total_events := 31\<rparr>)"
    by (simp add: count_dataset_def sample_results_def)
  show ?thesis
    using total_datasets_invariant [of sample_world "''Sample''"
        "[''/*/Run202*-Sample-PromptReco*/ALCARECO'', ''/*/Commissioning*/ALCARECO'']"
        "\<lparr>total_datasets = 3, total_size = 305, total_events = 31,
          size_by_year = [(''2022'', 100), (''2023'', 200)],
          count_by_year = [(''2022'', 1), (''2023'', 1)]\<rparr>"
        "JInt 5" "JInt 1" "JStr ''/C/Commissioning/ALCARECO''" sample_results
        "sample_results\<lparr>total_datasets := 3, total_size := 305, total_events := 31\<rparr>"]
      sample_two_patterns c s
    by (simp add: year_of_str)
qed

text \<open>
  C4. When the adapter's result is not empty and one of its records does not have the
  shape the walk expects (it is no dictionary, it has no \<^verbatim>\<open>dataset\<close> entry, that entry
  cannot be iterated, or one of its items is no dictionary with a \<^verbatim>\<open>name\<close>), so that a
  \<^verbatim>\<open>KeyError\<close> or \<^verbatim>\<open>TypeError\<close> is raised on it, \<^verbatim>\<open>get_datasets\<close> returns the empty
  list, whatever names the records before it gave.
\<close>

theorem malformed_record_empties_listing:
  assumes "snd (get_das_data W (dataset_query pattern)) = Inr data"
    and "truthy data"
    and "py_iter data = Inr entries"
    and "entry \<in> set entries"
    and "\<not> record_ok entry"
  shows "snd (get_datasets W pattern) = Inr []"
proof -
  from record_not_ok[OF assms(5)] obtain e where "record_names entry = Inl e" ..
  from walk_entries_bad_record[OF assms(4) this, of "[]"]
  obtain e' where w: "walk_entries [] entries = Inl e'" ..
  then have "caught e'" by (rule walk_entries_caught)
  with w assms(2,3) have "snd (datasets_of_data pattern data) = Inr []"
    by (simp add: datasets_of_data_def)
  with assms(1) show ?thesis
    by (simp add: get_datasets_def snd_io_bind)
qed

theorem malformed_record_empties_listing_witness:
  "snd (get_das_data sample_world (dataset_query ''/*/Run202*-Broken*/ALCARECO'')) =
     Inr (JArr [name_record ''/A/Run2022X/ALCARECO'', JObj [(''das'', JNull)]]) \<and>
   record_ok (name_record ''/A/Run2022X/ALCARECO'') \<and>
   \<not> record_ok (JObj [(''das'', JNull)]) \<and>
   snd (get_datasets sample_world ''/*/Run202*-Broken*/ALCARECO'') = Inr []"
  using malformed_record_empties_listing [OF broken_data, of
      "[name_record ''/A/Run2022X/ALCARECO'', JObj [(''das'', JNull)]]" "JObj [(''das'', JNull)]"]
    broken_data
  by (simp add: record_ok_def name_record_def has_name_def)

text \<open>
  C5. For totals in the range of a Python float the reporter computes the average size
  per dataset as \<^verbatim>\<open>total_size_tb / total_datasets\<close> when \<^verbatim>\<open>total_datasets > 0\<close> and as
  0 when it is 0, the average size per event likewise from \<^verbatim>\<open>total_events\<close>, and no
  division raises. A \<^verbatim>\<open>ZeroDivisionError\<close> is never raised. Outside that range (a
  total of \<open>2 ^ 1024 - 2 ^ 970\<close> or more, or a size of that many terabytes) the
  conversion to a float raises an \<^verbatim>\<open>OverflowError\<close>.
\<close>

theorem averages_guarded:
  "(in_float_range r \<longrightarrow>
      (\<exists>size_tb per_dataset per_event.
         averages r = Inr (size_tb, per_dataset, per_event) \<and>
         int_truediv (total_size r) (1024 ^ 4) = Inr size_tb \<and>
         (0 < total_datasets r \<longrightarrow>
            (\<exists>x. float_truediv_int size_tb (total_datasets r) = Inr x \<and>
                 per_dataset = PyFloat x)) \<and>
         (total_datasets r \<le> 0 \<longrightarrow> per_dataset = PyInt 0) \<and>
         (0 < total_events r \<longrightarrow>
            (\<exists>x. float_truediv_int size_tb (total_events r) = Inr x \<and>
                 per_event = PyFloat x)) \<and>
         (total_events r \<le> 0 \<longrightarrow> per_event = PyInt 0))) \<and>
   (\<not> in_float_range r \<longrightarrow> averages r = Inl OverflowError) \<and>
   averages r \<noteq> Inl ZeroDivisionError"
  by (auto simp: in_float_range_def averages_def average_size_cases total_size_tb_cases
        float_truediv_int_pos int_truediv_def)

theorem averages_guarded_witness:
  "in_float_range sample_results \<and>
   (\<exists>size_tb x y. averages sample_results = Inr (size_tb, PyFloat x, PyFloat y) \<and>
      int_truediv 300 (1024 ^ 4) = Inr size_tb \<and>
      float_truediv_int size_tb 2 = Inr x \<and> float_truediv_int size_tb 30 = Inr y) \<and>
   in_float_range new_results \<and>
   averages new_results = Inr (0, PyInt 0, PyInt 0) \<and>
   \<not> in_float_range huge_results \<and>
   averages huge_results = Inl OverflowError"
proof -
  have a: "in_float_range sample_results"
    by (simp add: in_float_range_def sample_results_def dbl_overflows_def)
  have b: "in_float_range new_results"
    by (simp add: in_float_range_def new_results_def dbl_overflows_def)
  have c: "\<not> in_float_range huge_results"
    by (simp add: in_float_range_def huge_results_def dbl_overflows_def)
  have d: "int_truediv 0 (1024 ^ 4) = Inr 0"
    by (simp add: int_truediv_0)
  from averages_guarded [of sample_results] a
  have 1: "\<exists>size_tb x y. averages sample_results = Inr (size_tb, PyFloat x, PyFloat y) \<and>
      int_truediv 300 (1024 ^ 4) = Inr size_tb \<and>
      float_truediv_int size_tb 2 = Inr x \<and> float_truediv_int size_tb 30 = Inr y"
    by (auto simp: sample_results_def)
  from averages_guarded [of new_results] b d
  have 2: "averages new_results = Inr (0, PyInt 0, PyInt 0)"
    by (auto simp: new_results_def)
  from averages_guarded [of huge_results] c
  have 3: "averages huge_results = Inl OverflowError"
    by simp
  from a b c 1 2 3 show ?thesis by blast
qed

theorem averages_overflow_counterexample:
  "snd (process_datasets sample_world ''Huge'' [''/*/Run202*-Huge*/ALCARECO'']) = Inr huge_results \<and>
   0 < total_events huge_results \<and>
   averages huge_results = Inl OverflowError \<and>
   snd (report_group ''Huge'' huge_results) = Inl OverflowError"
  by (simp add: huge_run huge_averages report_group_def)
     (simp add: huge_results_def)

text \<open>
  C6. A counted dataset (size and event count both not \<^verbatim>\<open>None\<close>) is put into the
  bucket of the first of \<^verbatim>\<open>Run2022\<close>, \<^verbatim>\<open>Run2023\<close>, \<^verbatim>\<open>Run2024\<close>, tested in this order,
  that its name contains: the size is added to \<^verbatim>\<open>size_by_year\<close> and 1 to
  \<^verbatim>\<open>count_by_year\<close> for that year, and the entries of every other year keep their
  values. A name with none of the tokens leaves both dictionaries unchanged.
\<close>

theorem year_bucketing:
  assumes "sz \<noteq> JNull" and "ev \<noteq> JNull"
    and "count_dataset r (JStr name) sz ev = Inr r'"
  shows "year_of (JStr name) =
           (if str_contains name ''Run2022'' then Some ''2022''
            else if str_contains name ''Run2023'' then Some ''2023''
            else if str_contains name ''Run2024'' then Some ''2024''
            else None) \<and>
         r' = counted_into r (int_of sz) (int_of ev) (year_of (JStr name)) \<and>
         (\<forall>year. year_of (JStr name) = Some year \<longrightarrow>
            dd_get (size_by_year r') year = dd_get (size_by_year r) year + int_of sz \<and>
            dd_get (count_by_year r') year = dd_get (count_by_year r) year + 1 \<and>
            (\<forall>other. other \<noteq> year \<longrightarrow>
               dd_get (size_by_year r') other = dd_get (size_by_year r) other \<and>
               dd_get (count_by_year r') other = dd_get (count_by_year r) other)) \<and>
         (year_of (JStr name) = None \<longrightarrow>
            size_by_year r' = size_by_year r \<and> count_by_year r' = count_by_year r)"
proof -
  from count_dataset_Inr[OF assms(3)] assms(1,2)
  obtain n m where nm: "int_add 0 sz = Inr n" "int_add 0 ev = Inr m"
    and r': "r' = counted_into r n m (year_of (JStr name))"
    by auto
  from nm have i: "int_of sz = n" "int_of ev = m" by (simp_all add: int_of_def)
  show ?thesis
    unfolding r' i
    by (auto simp: year_of_str counted_into_def dd_get_dd_set)
qed

theorem year_bucketing_witness:
  "JInt 100 \<noteq> JNull \<and> JInt 10 \<noteq> JNull \<and>
   count_dataset new_results (JStr ''/X/Run2023B-Run2022A/ALCARECO'') (JInt 100) (JInt 10) =
     Inr \<lparr>total_datasets = 1, total_size = 100, total_events = 10,
          size_by_year = [(''2022'', 100)], count_by_year = [(''2022'', 1)]\<rparr> \<and>
   year_of (JStr ''/X/Run2023B-Run2022A/ALCARECO'') = Some ''2022'' \<and>
   dd_get [(''2022'', 100)] ''2022'' = dd_get [] ''2022'' + int_of (JInt 100) \<and>
   dd_get [(''2022'', 100)] ''2023'' = dd_get [] ''2023''"
proof -
  have c: "count_dataset new_results (JStr ''/X/Run2023B-Run2022A/ALCARECO'') (JInt 100) (JInt 10) =
     Inr \<lparr>total_datasets = 1, total_size = 100, total_events = 10,
          size_by_year = [(''2022'', 100)], count_by_year = [(''2022'', 1)]\<rparr>"
    by (simp add: count_dataset_def add_to_year_def new_results_def dd_get_def)
  from year_bucketing [OF _ _ c] c show ?thesis
    by (simp add: new_results_def dd_get_def int_of_def)
qed

text \<open>
  C7. When the external client exits with a status other than 0 and its captured error
  stream is valid UTF-8, \<^verbatim>\<open>get_das_data\<close> prints that text and returns \<^verbatim>\<open>None\<close>
  without raising; \<^verbatim>\<open>get_datasets\<close> then returns the empty list for the pattern; and
  when this holds for every pattern of a group, \<^verbatim>\<open>process_datasets\<close> returns the
  result with all three totals 0 and both year dictionaries empty.
\<close>

theorem nonzero_exit_yields_empty_group:
  "(client W [''dasgoclient'', ''--query'', query, ''--json''] = Some p \<and>
    returncode p \<noteq> 0 \<and> utf8_valid (stderr p) \<longrightarrow>
      get_das_data W query =
        ([Line (''Error executing dasgoclient: '' @ stderr p)], Inr JNull)) \<and>
   (client W [''dasgoclient'', ''--query'', dataset_query pattern, ''--json''] = Some p' \<and>
    returncode p' \<noteq> 0 \<and> utf8_valid (stderr p') \<longrightarrow>
      get_datasets W pattern =
        ([Line (''Executing query: '' @ dataset_query pattern),
          Line (''Error executing dasgoclient: '' @ stderr p'),
          Line (''No data found for pattern '' @ pattern)], Inr [])) \<and>
   ((\<forall>pat \<in> set patterns.
       \<exists>c. client W [''dasgoclient'', ''--query'', dataset_query pat, ''--json''] = Some c \<and>
           returncode c \<noteq> 0 \<and> utf8_valid (stderr c)) \<longrightarrow>
      snd (process_datasets W group_name patterns) =
        Inr \<lparr>total_datasets = 0, total_size = 0, total_events = 0,
             size_by_year = [], count_by_year = []\<rparr>)"
proof (intro conjI impI)
  assume "client W [''dasgoclient'', ''--query'', query, ''--json''] = Some p \<and>
    returncode p \<noteq> 0 \<and> utf8_valid (stderr p)"
  then show "get_das_data W query =
        ([Line (''Error executing dasgoclient: '' @ stderr p)], Inr JNull)"
    by (simp add: get_das_data_nonzero_exit)
next
  assume "client W [''dasgoclient'', ''--query'', dataset_query pattern, ''--json''] = Some p' \<and>
    returncode p' \<noteq> 0 \<and> utf8_valid (stderr p')"
  then have "get_das_data W (dataset_query pattern) =
        ([Line (''Error executing dasgoclient: '' @ stderr p')], Inr JNull)"
    by (simp add: get_das_data_nonzero_exit)
  then show "get_datasets W pattern =
        ([Line (''Executing query: '' @ dataset_query pattern),
          Line (''Error executing dasgoclient: '' @ stderr p'),
          Line (''No data found for pattern '' @ pattern)], Inr [])"
    by (simp add: get_datasets_no_data)
next
  assume a: "\<forall>pat \<in> set patterns.
       \<exists>c. client W [''dasgoclient'', ''--query'', dataset_query pat, ''--json''] = Some c \<and>
           returncode c \<noteq> 0 \<and> utf8_valid (stderr c)"
  have "\<forall>pat \<in> set patterns. snd (get_datasets W pat) = Inr []"
  proof
    fix pat
    assume "pat \<in> set patterns"
    with a obtain c where
      "client W [''dasgoclient'', ''--query'', dataset_query pat, ''--json''] = Some c"
      "returncode c \<noteq> 0" "utf8_valid (stderr c)"
      by blast
    then have "get_das_data W (dataset_query pat) =
        ([Line (''Error executing dasgoclient: '' @ stderr c)], Inr JNull)"
      by (simp add: get_das_data_nonzero_exit)
    then show "snd (get_datasets W pat) = Inr []"
      by (simp add: get_datasets_no_data)
  qed
  then have "snd (fold_patterns (get_datasets W) (get_dataset_info W) new_results patterns) =
      Inr new_results"
    by (rule fold_patterns_empty_listings)
  then show "snd (process_datasets W group_name patterns) =
        Inr \<lparr>total_datasets = 0, total_size = 0, total_events = 0,
             size_by_year = [], count_by_year = []\<rparr>"
    by (simp add: process_datasets_def aggregate_def new_results_def)
qed

theorem nonzero_exit_yields_empty_group_witness:
  "get_das_data failing_world (dataset_query ''/*/Run202*-AlCaPCCZeroBias-PromptReco*/ALCARECO'') =
     ([Line ''Error executing dasgoclient: boom''], Inr JNull) \<and>
   get_datasets failing_world ''/*/Run202*-AlCaPCCZeroBias-PromptReco*/ALCARECO'' =
     ([Line (''Executing query: '' @
             dataset_query ''/*/Run202*-AlCaPCCZeroBias-PromptReco*/ALCARECO''),
       Line ''Error executing dasgoclient: boom'',
       Line ''No data found for pattern /*/Run202*-AlCaPCCZeroBias-PromptReco*/ALCARECO''],
      Inr []) \<and>
   snd (process_datasets failing_world ''BRIL''
          [''/*/Run202*-AlCaPCCZeroBias-PromptReco*/ALCARECO'',
           ''/*/Run202*-AlCaPCCRandom-PromptReco*/ALCARECO'']) =
     Inr \<lparr>total_datasets = 0, total_size = 0, total_events = 0,
          size_by_year = [], count_by_year = []\<rparr>"
  using nonzero_exit_yields_empty_group [of failing_world
      "dataset_query ''/*/Run202*-AlCaPCCZeroBias-PromptReco*/ALCARECO''"
      "\<lparr>returncode = 1, stdout = [], stderr = ''boom''\<rparr>"
      "''/*/Run202*-AlCaPCCZeroBias-PromptReco*/ALCARECO''"
      "\<lparr>returncode = 1, stdout = [], stderr = ''boom''\<rparr>"
      "[''/*/Run202*-AlCaPCCZeroBias-PromptReco*/ALCARECO'',
        ''/*/Run202*-AlCaPCCRandom-PromptReco*/ALCARECO'']" "''BRIL''"]
  by (simp add: failing_world_def byte_in_def)

theorem nonzero_exit_counterexample:
  "client garbled_world
     [''dasgoclient'', ''--query'',
      dataset_query ''/*/Run202*PPSCalMaxTracks*PromptReco*/ALCA*'', ''--json''] =
     Some \<lparr>returncode = 1, stdout = [], stderr = [CHR 0xFF]\<rparr> \<and>
   get_das_data garbled_world (dataset_query ''/*/Run202*PPSCalMaxTracks*PromptReco*/ALCA*'') =
     ([], Inl UnicodeDecodeError) \<and>
   snd (get_datasets garbled_world ''/*/Run202*PPSCalMaxTracks*PromptReco*/ALCA*'') =
     Inl UnicodeDecodeError \<and>
   snd (process_datasets garbled_world ''PPS'' [''/*/Run202*PPSCalMaxTracks*PromptReco*/ALCA*'']) =
     Inl UnicodeDecodeError"
proof -
  have c: "client garbled_world
     [''dasgoclient'', ''--query'',
      dataset_query ''/*/Run202*PPSCalMaxTracks*PromptReco*/ALCA*'', ''--json''] =
     Some \<lparr>returncode = 1, stdout = [], stderr = [CHR 0xFF]\<rparr>"
    by (simp add: garbled_world_def)
  have g: "get_das_data garbled_world
      (dataset_query ''/*/Run202*PPSCalMaxTracks*PromptReco*/ALCA*'') =
     ([], Inl UnicodeDecodeError)"
    by (simp add: get_das_data_nonzero_exit[OF c] byte_in_def)
  have l: "snd (get_datasets garbled_world ''/*/Run202*PPSCalMaxTracks*PromptReco*/ALCA*'') =
     Inl UnicodeDecodeError"
    by (simp add: get_datasets_def snd_io_bind g)
  have "snd (process_datasets garbled_world ''PPS''
       [''/*/Run202*PPSCalMaxTracks*PromptReco*/ALCA*'']) = Inl UnicodeDecodeError"
    by (simp add: process_datasets_def aggregate_def snd_io_bind l)
  with c g l show ?thesis by simp
qed

text \<open>
  C8. When the client exits with status 0 and \<^verbatim>\<open>json.loads\<close> rejects the text of its
  standard output, \<^verbatim>\<open>get_das_data\<close> does not return: the \<^verbatim>\<open>JSONDecodeError\<close> leaves it,
  and it leaves the lister, the fetcher and the aggregator that made the call as well.
\<close>

theorem malformed_json_propagates:
  assumes "client W [''dasgoclient'', ''--query'', query, ''--json''] = Some p"
    and "returncode p = 0"
    and "decode_utf8 (stdout p) = Inr text"
    and "json_loads W text = None"
  shows "get_das_data W query = ([], Inl JSONDecodeError) \<and>
         (query = dataset_query pattern \<longrightarrow>
            snd (get_datasets W pattern) = Inl JSONDecodeError \<and>
            snd (process_datasets W group_name (pattern # rest)) = Inl JSONDecodeError) \<and>
         (query = dataset_query (format_value W dataset) \<longrightarrow>
            snd (get_dataset_info W dataset) = Inl JSONDecodeError)"
proof -
  have g: "get_das_data W query = ([], Inl JSONDecodeError)"
    using assms by (rule get_das_data_not_json)
  then show ?thesis
    by (auto simp: get_datasets_def get_dataset_info_def process_datasets_def aggregate_def
          snd_io_bind)
qed

theorem malformed_json_propagates_witness:
  "client sample_world
     [''dasgoclient'', ''--query'', dataset_query ''/*/Unknown*/ALCARECO'', ''--json''] =
     Some \<lparr>returncode = 0, stdout = dataset_query ''/*/Unknown*/ALCARECO'', stderr = []\<rparr> \<and>
   decode_utf8 (dataset_query ''/*/Unknown*/ALCARECO'') =
     Inr (dataset_query ''/*/Unknown*/ALCARECO'') \<and>
   json_loads sample_world (dataset_query ''/*/Unknown*/ALCARECO'') = None \<and>
   get_das_data sample_world (dataset_query ''/*/Unknown*/ALCARECO'') =
     ([], Inl JSONDecodeError) \<and>
   snd (get_datasets sample_world ''/*/Unknown*/ALCARECO'') = Inl JSONDecodeError \<and>
   snd (process_datasets sample_world ''Unknown'' [''/*/Unknown*/ALCARECO'']) =
     Inl JSONDecodeError"
proof -
  have c: "client sample_world
     [''dasgoclient'', ''--query'', dataset_query ''/*/Unknown*/ALCARECO'', ''--json''] =
     Some \<lparr>returncode = 0, stdout = dataset_query ''/*/Unknown*/ALCARECO'', stderr = []\<rparr>"
    by (simp add: sample_world_def echo_client_def)
  have d: "decode_utf8 (dataset_query ''/*/Unknown*/ALCARECO'') =
     Inr (dataset_query ''/*/Unknown*/ALCARECO'')"
    by (simp add: decode_utf8_def dataset_query_def byte_in_def)
  have j: "json_loads sample_world (dataset_query ''/*/Unknown*/ALCARECO'') = None"
    by (simp add: sample_world_def sample_catalog_def dataset_query_def)
  from malformed_json_propagates [OF c _ _ j, of "''/*/Unknown*/ALCARECO''" "''Unknown''" "[]"]
    c d j
  show ?thesis by simp
qed

text \<open>
  C9. The aggregate is a function of the listed datasets and the fetched metadata
  alone: two runs in surroundings that answer the listing and metadata calls alike
  give the same output and the same result, whatever the group is called; a run
  that returns yields the fold of the counting step over the listed datasets, from the
  empty result; and a second run after a first returns an equal result.
\<close>

theorem aggregation_is_a_pure_fold:
  "((\<forall>p \<in> set patterns. get_datasets W1 p = get_datasets W2 p) \<and>
    (\<forall>d \<in> set (listed (get_datasets W1) patterns).
        get_dataset_info W1 d = get_dataset_info W2 d) \<longrightarrow>
      process_datasets W1 name1 patterns = process_datasets W2 name2 patterns) \<and>
   (snd (process_datasets W group_name patterns) = Inr r \<longrightarrow>
      r = foldl (tally (get_dataset_info W)) new_results (listed (get_datasets W) patterns)) \<and>
   (snd (io_bind (process_datasets W group_name patterns) (\<lambda>first.
         io_bind (process_datasets W group_name patterns) (\<lambda>second.
         io_return (first = second)))) = Inr same \<longrightarrow> same)"
proof (intro conjI impI)
  assume "(\<forall>p \<in> set patterns. get_datasets W1 p = get_datasets W2 p) \<and>
    (\<forall>d \<in> set (listed (get_datasets W1) patterns).
        get_dataset_info W1 d = get_dataset_info W2 d)"
  then show "process_datasets W1 name1 patterns = process_datasets W2 name2 patterns"
    by (simp add: process_datasets_def aggregate_def fold_patterns_cong)
next
  assume "snd (process_datasets W group_name patterns) = Inr r"
  then show "r = foldl (tally (get_dataset_info W)) new_results
      (listed (get_datasets W) patterns)"
    by (simp add: process_datasets_def aggregate_def fold_patterns_Inr)
next
  assume "snd (io_bind (process_datasets W group_name patterns) (\<lambda>first.
         io_bind (process_datasets W group_name patterns) (\<lambda>second.
         io_return (first = second)))) = Inr same"
  then show same
    by (auto simp: snd_io_bind split: sum.splits)
qed

theorem aggregation_is_a_pure_fold_witness:
  "py_str other_world JNull \<noteq> py_str sample_world JNull \<and>
   process_datasets other_world ''Other'' [''/*/Run202*-Sample-PromptReco*/ALCARECO''] =
   process_datasets sample_world ''Sample'' [''/*/Run202*-Sample-PromptReco*/ALCARECO''] \<and>
   sample_results =
     foldl (tally (get_dataset_info sample_world)) new_results
       (listed (get_datasets sample_world) [''/*/Run202*-Sample-PromptReco*/ALCARECO'']) \<and>
   snd (io_bind
          (process_datasets sample_world ''Sample'' [''/*/Run202*-Sample-PromptReco*/ALCARECO''])
          (\<lambda>first. io_bind
             (process_datasets sample_world ''Sample''
                [''/*/Run202*-Sample-PromptReco*/ALCARECO''])
             (\<lambda>second. io_return (first = second)))) = Inr True"
proof -
  have run: "snd (process_datasets sample_world ''Sample''
        [''/*/Run202*-Sample-PromptReco*/ALCARECO'']) = Inr sample_results"
    by (simp add: process_datasets_def aggregate_def snd_io_bind unpack_pair_def
          sample_listing sample_info_A sample_info_B count_dataset_def add_to_year_def
          new_results_def dd_get_def sample_results_def)
  have l: "listed (get_datasets other_world) [''/*/Run202*-Sample-PromptReco*/ALCARECO''] =
      [JStr ''/A/Run2022X/ALCARECO'', JStr ''/B/Run2023Y/ALCARECO'']"
    by (simp add: listed_def other_listing sample_listing)
  have twice: "snd (io_bind
          (process_datasets sample_world ''Sample'' [''/*/Run202*-Sample-PromptReco*/ALCARECO''])
          (\<lambda>first. io_bind
             (process_datasets sample_world ''Sample''
                [''/*/Run202*-Sample-PromptReco*/ALCARECO''])
             (\<lambda>second. io_return (first = second)))) = Inr True"
    by (simp add: snd_io_bind run)
  have diff: "py_str other_world JNull \<noteq> py_str sample_world JNull"
    by (simp add: other_world_def sample_world_def)
  from aggregation_is_a_pure_fold [of "[''/*/Run202*-Sample-PromptReco*/ALCARECO'']"
      other_world sample_world "''Other''" "''Sample''" sample_world "''Sample''"
      sample_results True]
    run l twice diff
  show ?thesis
    by (simp add: other_listing other_info)
qed

text \<open>
  C10. When \<^verbatim>\<open>process_datasets\<close> has returned and none of the counted datasets fell
  into the bucket of a year, that year is no key of \<^verbatim>\<open>count_by_year\<close> or
  \<^verbatim>\<open>size_by_year\<close>, and the reporter's two statements for the year (lines 144 to 147)
  print a dataset count of 0 and a size of 0.00 TB without raising, because a
  \<^verbatim>\<open>defaultdict(int)\<close> yields 0 for an absent key. For each of the years 2022, 2023 and
  2024 the two lines are part of every report of the group that runs to its end.
\<close>

theorem absent_year_reported_as_zero:
  assumes "snd (process_datasets W group_name patterns) = Inr r"
    and "\<forall>d \<in> set (listed (get_datasets W) patterns).
           counted (get_dataset_info W) d \<longrightarrow> year_of d \<noteq> Some year"
  shows "map_of (count_by_year r) year = None \<and> map_of (size_by_year r) year = None \<and>
         report_year r year =
           ([Line (''Total number of datasets in '' @ year @ '': 0''),
             Line (''Total size of datasets in '' @ year @ '': 0.00 TB'')], Inr ()) \<and>
         (year \<in> set [''2022'', ''2023'', ''2024''] \<and>
          snd (report_group group_name r) = Inr () \<longrightarrow>
            Line (''Total number of datasets in '' @ year @ '': 0'')
              \<in> set (fst (report_group group_name r)) \<and>
            Line (''Total size of datasets in '' @ year @ '': 0.00 TB'')
              \<in> set (fst (report_group group_name r)))"
proof -
  from assms(1)
  have r: "r = foldl (tally (get_dataset_info W)) new_results (listed (get_datasets W) patterns)"
    by (simp add: process_datasets_def aggregate_def fold_patterns_Inr)
  from absent_key_foldl[OF assms(2), of new_results]
  have k: "map_of (count_by_year r) year = None" "map_of (size_by_year r) year = None"
    by (simp_all add: r new_results_def)
  note y = report_year_absent[OF k]
  have "Line (''Total number of datasets in '' @ year @ '': 0'')
              \<in> set (fst (report_group group_name r)) \<and>
        Line (''Total size of datasets in '' @ year @ '': 0.00 TB'')
              \<in> set (fst (report_group group_name r))"
    if "year \<in> set [''2022'', ''2023'', ''2024'']" "snd (report_group group_name r) = Inr ()"
  proof -
    from report_group_lines[OF that(2)]
    have a: "snd (report_years r [''2022'', ''2023'', ''2024'']) = Inr ()"
      and b: "set (fst (report_years r [''2022'', ''2023'', ''2024''])) \<subseteq>
        set (fst (report_group group_name r))"
      by simp_all
    from report_years_lines[OF a that(1)] b
    have "set (fst (report_year r year)) \<subseteq> set (fst (report_group group_name r))"
      by (rule subset_trans)
    then show ?thesis by (simp add: y)
  qed
  with k y show ?thesis by blast
qed

theorem absent_year_reported_as_zero_witness:
  "snd (process_datasets sample_world ''Sample'' [''/*/Run202*-Sample-PromptReco*/ALCARECO'']) =
     Inr sample_results \<and>
   map_of (count_by_year sample_results) ''2024'' = None \<and>
   report_year sample_results ''2024'' =
     ([Line ''Total number of datasets in 2024: 0'',
       Line ''Total size of datasets in 2024: 0.00 TB''], Inr ()) \<and>
   snd (report_group ''Sample'' sample_results) = Inr () \<and>
   Line ''Total number of datasets in 2024: 0''
     \<in> set (fst (report_group ''Sample'' sample_results)) \<and>
   Line ''Total size of datasets in 2024: 0.00 TB''
     \<in> set (fst (report_group ''Sample'' sample_results))"
proof -
  have h: "\<forall>d \<in> set (listed (get_datasets sample_world)
               [''/*/Run202*-Sample-PromptReco*/ALCARECO'']).
           counted (get_dataset_info sample_world) d \<longrightarrow> year_of d \<noteq> Some ''2024''"
    by (simp add: sample_listed year_of_str)
  from absent_year_reported_as_zero [OF sample_run h] sample_run sample_report_returns
  show ?thesis by simp
qed

end
